theory Spec2Isabelle
  imports Main
begin

section \<open>Go values the adapter handles\<close>

text \<open>
  A Go \<open>string\<close> is a sequence of bytes, and so is an Isabelle \<^typ>\<open>string\<close>
  (a list of 8-bit characters): \<open>len(s)\<close> is \<^term>\<open>length s\<close>. A Go
  \<open>map[string]string\<close> is a partial map; reading a key that is absent (also from a
  nil map) gives the zero value, the empty string. Go's \<open>int\<close> is taken at 64 bits.
\<close>

type_synonym gomap = "string \<rightharpoonup> string"

definition index :: "gomap \<Rightarrow> string \<Rightarrow> string" where
  "index m k = (case m k of None \<Rightarrow> [] | Some v \<Rightarrow> v)"

text \<open>
  Go's \<open>error\<close> values, as far as the adapter makes or meets them:
  \<open>errors.New\<close> of pkg/errors, \<open>errors.Wrapf\<close> (a message around a cause; the
  recorded stack is left out), \<open>strconv.NumError\<close>, \<open>net.AddrError\<close>,
  \<open>regexp/syntax.Error\<close>, and the errors of the external collaborators (a
  transport's \<open>Dial\<close>, \<open>fluent.New\<close>, \<open>PostWithTime\<close>), which are opaque.
  \<open>Unmodelled\<close> is no error of Go's: it marks a regular expression outside the
  fragment of the syntax that the model of \<open>regexp\<close> below covers.
\<close>

datatype numerr = ErrSyntax | ErrRange

datatype error =
    ErrorString string
  | WithMessage error string
  | NumError string string numerr
  | AddrError string string
  | SyntaxError string string
  | External string
  | Unmodelled string

definition Wrapf :: "error \<Rightarrow> string \<Rightarrow> error" where
  "Wrapf err msg = WithMessage err msg"

section \<open>The standard library functions the adapter calls\<close>

text \<open>
  The functions of Go's standard library are not among the sources of the repository.
  They are modelled here after the library: \<open>strconv.Atoi\<close>, \<open>strconv.Itoa\<close> and
  \<open>strconv.ParseBool\<close>, \<open>net.SplitHostPort\<close>, and \<open>regexp.MatchString\<close>.
\<close>

subsection \<open>strconv\<close>

definition isDigit :: "char \<Rightarrow> bool" where
  "isDigit c = ((48::nat) \<le> of_char c \<and> of_char c \<le> (57::nat))"

definition digitVal :: "char \<Rightarrow> nat" where
  "digitVal c = of_char c - 48"

definition maxUint64 :: nat where
  "maxUint64 = 18446744073709551615"

text \<open>
  The digit loop of \<open>strconv.ParseUint\<close> at base 10 and 64 bits: a byte that is not a
  decimal digit is a syntax error, and the overflow of \<open>n * 10\<close> or of \<open>n * 10 + d\<close>
  is a range error, whichever the scan meets first.
\<close>

fun ParseUint_loop :: "nat \<Rightarrow> string \<Rightarrow> numerr + nat" where
  "ParseUint_loop n [] = Inr n"
| "ParseUint_loop n (c # cs) =
     (if \<not> isDigit c then Inl ErrSyntax
      else if n \<ge> maxUint64 div 10 + 1 then Inl ErrRange
      else (let n1 = n * 10 + digitVal c in
            if n1 > maxUint64 then Inl ErrRange else ParseUint_loop n1 cs))"

definition ParseUint :: "string \<Rightarrow> numerr + nat" where
  "ParseUint s = (if s = [] then Inl ErrSyntax else ParseUint_loop 0 s)"

text \<open>
  \<open>strconv.ParseInt(s, 10, 0)\<close>: an optional sign, then \<open>ParseUint\<close>; the value
  must fit the signed 64-bit range. A range error of \<open>ParseUint\<close> stays a range
  error.
\<close>

definition ParseInt :: "string \<Rightarrow> numerr + int" where
  "ParseInt s0 =
     (if s0 = [] then Inl ErrSyntax
      else
        (let neg = (hd s0 = CHR ''-'');
             s = (if hd s0 = CHR ''+'' \<or> hd s0 = CHR ''-'' then tl s0 else s0)
         in case ParseUint s of
              Inl ErrSyntax \<Rightarrow> Inl ErrSyntax
            | Inl ErrRange \<Rightarrow> Inl ErrRange
            | Inr un \<Rightarrow>
                (if \<not> neg \<and> un \<ge> 2 ^ 63 then Inl ErrRange
                 else if neg \<and> un > 2 ^ 63 then Inl ErrRange
                 else Inr (if neg then - int un else int un))))"

text \<open>The fast path of \<open>strconv.Atoi\<close>, taken for 1 to 18 bytes: no overflow can occur.\<close>

fun Atoi_digits :: "nat \<Rightarrow> string \<Rightarrow> nat option" where
  "Atoi_digits n [] = Some n"
| "Atoi_digits n (ch # s) =
     (if \<not> isDigit ch then None else Atoi_digits (n * 10 + digitVal ch) s)"

definition Atoi :: "string \<Rightarrow> error + int" where
  "Atoi s0 =
     (if 0 < length s0 \<and> length s0 < 19 then
        (let s = (if hd s0 = CHR ''-'' \<or> hd s0 = CHR ''+'' then tl s0 else s0) in
         if length s < 1 then Inl (NumError ''Atoi'' s0 ErrSyntax)
         else case Atoi_digits 0 s of
                None \<Rightarrow> Inl (NumError ''Atoi'' s0 ErrSyntax)
              | Some n \<Rightarrow> Inr (if hd s0 = CHR ''-'' then - int n else int n))
      else case ParseInt s0 of
             Inl e \<Rightarrow> Inl (NumError ''Atoi'' s0 e)
           | Inr i \<Rightarrow> Inr i)"

text \<open>\<open>strconv.Itoa\<close>: the decimal digits, most significant first, after a minus sign
  for a negative number.\<close>

fun FormatUint :: "nat \<Rightarrow> string" where
  "FormatUint n =
     (if n < 10 then [''0123456789'' ! n]
      else FormatUint (n div 10) @ [''0123456789'' ! (n mod 10)])"

declare FormatUint.simps [simp del]

definition Itoa :: "int \<Rightarrow> string" where
  "Itoa i = (if i < 0 then CHR ''-'' # FormatUint (nat (- i)) else FormatUint (nat i))"

definition ParseBool :: "string \<Rightarrow> error + bool" where
  "ParseBool str =
     (if str \<in> set [''1'', ''t'', ''T'', ''true'', ''TRUE'', ''True''] then Inr True
      else if str \<in> set [''0'', ''f'', ''F'', ''false'', ''FALSE'', ''False''] then Inr False
      else Inl (NumError ''ParseBool'' str ErrSyntax))"

subsection \<open>net\<close>

fun IndexByte :: "string \<Rightarrow> char \<Rightarrow> nat option" where
  "IndexByte [] c = None"
| "IndexByte (x # xs) c = (if x = c then Some 0 else map_option Suc (IndexByte xs c))"

fun LastIndexByte :: "string \<Rightarrow> char \<Rightarrow> nat option" where
  "LastIndexByte [] c = None"
| "LastIndexByte (x # xs) c =
     (case LastIndexByte xs c of
        Some i \<Rightarrow> Some (Suc i)
      | None \<Rightarrow> (if x = c then Some 0 else None))"

definition addrErr :: "string \<Rightarrow> string \<Rightarrow> string \<times> string \<times> error option" where
  "addrErr addr why = ([], [], Some (AddrError why addr))"

text \<open>
  \<open>net.SplitHostPort\<close>: the port is what follows the last colon; the host may stand in
  square brackets. Every failure returns two empty strings beside the error.
\<close>

definition SplitHostPort :: "string \<Rightarrow> string \<times> string \<times> error option" where
  "SplitHostPort hostport =
     (case LastIndexByte hostport CHR '':'' of
        None \<Rightarrow> addrErr hostport ''missing port in address''
      | Some i \<Rightarrow>
          (let finish = (\<lambda>host j k.
                 if IndexByte (drop j hostport) CHR ''['' \<noteq> None
                   then addrErr hostport ''unexpected '[' in address''
                 else if IndexByte (drop k hostport) CHR '']'' \<noteq> None
                   then addrErr hostport ''unexpected ']' in address''
                 else (host, drop (i + 1) hostport, None))
           in if hd hostport = CHR ''['' then
                (case IndexByte hostport CHR '']'' of
                   None \<Rightarrow> addrErr hostport ''missing ']' in address''
                 | Some end \<Rightarrow>
                     if end + 1 = length hostport
                       then addrErr hostport ''missing port in address''
                     else if end + 1 = i
                       then finish (drop 1 (take end hostport)) 1 (end + 1)
                     else if hostport ! (end + 1) = CHR '':''
                       then addrErr hostport ''too many colons in address''
                     else addrErr hostport ''missing port in address'')
              else
                (let host = take i hostport in
                 if IndexByte host CHR '':'' \<noteq> None
                   then addrErr hostport ''too many colons in address''
                 else finish host 0 0)))"

subsection \<open>regexp\<close>

text \<open>
  Modelled from the spec: \<open>regexp.MatchString\<close> belongs to Go's standard library and
  is not among the sources of the repository; the specification's matching rule is
  that the entire payload matches a whitespace-only pattern, anchored at both ends.
  The model follows the library's documented syntax and semantics:
  \<open>regexp.MatchString(pattern, s)\<close> compiles the pattern and reports whether \<open>s\<close>
  contains a match; a pattern that does not parse gives \<open>false\<close> and the syntax
  error. The model covers the fragment of the RE2 syntax built from \<open>^\<close> (beginning
  of the text), \<open>$\<close> (end of the text: no multi-line flag is set), bracket
  expressions made of POSIX classes \<open>[:name:]\<close> (not negated) and plain ASCII bytes, the
  star, and
  plain ASCII bytes as literals. The classes are ASCII, so a byte of a multi-byte or
  invalid UTF-8 sequence is in none of them, and matching byte by byte is matching rune
  by rune. A pattern outside the fragment gets the error \<open>Unmodelled\<close>.
\<close>

datatype atom = Lit char | Class "char list" | BeginText | EndText

datatype piece = One atom | Star atom

definition byteRange :: "nat \<Rightarrow> nat \<Rightarrow> char list" where
  "byteRange lo hi = map char_of [lo..<Suc hi]"

text \<open>The table \<open>posixGroup\<close> of \<open>regexp/syntax\<close>.\<close>

definition posixGroup :: "string \<Rightarrow> char list option" where
  "posixGroup name =
     (if name = ''[:alnum:]'' then Some (byteRange 48 57 @ byteRange 65 90 @ byteRange 97 122)
      else if name = ''[:alpha:]'' then Some (byteRange 65 90 @ byteRange 97 122)
      else if name = ''[:ascii:]'' then Some (byteRange 0 127)
      else if name = ''[:blank:]'' then Some (byteRange 9 9 @ byteRange 32 32)
      else if name = ''[:cntrl:]'' then Some (byteRange 0 31 @ byteRange 127 127)
      else if name = ''[:digit:]'' then Some (byteRange 48 57)
      else if name = ''[:graph:]'' then Some (byteRange 33 126)
      else if name = ''[:lower:]'' then Some (byteRange 97 122)
      else if name = ''[:print:]'' then Some (byteRange 32 126)
      else if name = ''[:punct:]'' then
        Some (byteRange 33 47 @ byteRange 58 64 @ byteRange 91 96 @ byteRange 123 126)
      else if name = ''[:space:]'' then Some (byteRange 9 13 @ byteRange 32 32)
      else if name = ''[:upper:]'' then Some (byteRange 65 90)
      else if name = ''[:word:]'' then
        Some (byteRange 48 57 @ byteRange 65 90 @ byteRange 97 122 @ byteRange 95 95)
      else if name = ''[:xdigit:]'' then Some (byteRange 48 57 @ byteRange 65 70 @ byteRange 97 102)
      else None)"

text \<open>\<open>strings.Index(s, ":]")\<close>, as the text before the first \<open>:]\<close> and the text after it.\<close>

fun findClose :: "string \<Rightarrow> (string \<times> string) option" where
  "findClose (c # d # s) =
     (if c = CHR '':'' \<and> d = CHR '']'' then Some ([], s)
      else map_option (\<lambda>(n, r). (c # n, r)) (findClose (d # s)))"
| "findClose s = None"

lemma findClose_shorter: "findClose s = Some (n, r) \<Longrightarrow> length r < length s"
proof (induction s arbitrary: n r rule: findClose.induct)
  case (1 c d s)
  then show ?case by (fastforce split: if_splits)
qed simp_all

definition isMeta :: "char \<Rightarrow> bool" where
  "isMeta c = (c \<in> set (CHR 0x5C # ''.+*?()|[]{}^$-'') \<or> (of_char c :: nat) \<ge> 128)"

text \<open>
  The loop of \<open>parseClass\<close> over the items of a bracket expression, after the opening
  bracket: \<open>whole\<close> is the expression from its bracket on (for the error), \<open>first\<close>
  says that no item has been read, \<open>class\<close> collects the members.
\<close>

function parseClass :: "string \<Rightarrow> string \<Rightarrow> bool \<Rightarrow> char list \<Rightarrow> error + (char list \<times> string)" where
  "parseClass whole [] first class = Inl (SyntaxError ''missing closing ]'' whole)"
| "parseClass whole (c # t) first class =
     (if c = CHR '']'' then (if first then Inl (Unmodelled whole) else Inr (class, t))
      else if c = CHR ''['' \<and> length (c # t) > 2 \<and> hd t = CHR '':'' then
        (case findClose (tl t) of
           None \<Rightarrow> Inl (Unmodelled whole)
         | Some (n, rest) \<Rightarrow>
             (if n \<noteq> [] \<and> hd n = CHR ''^'' then Inl (Unmodelled whole)
              else case posixGroup (''[:'' @ n @ '':]'') of
                None \<Rightarrow> Inl (SyntaxError ''invalid character class range'' (''[:'' @ n @ '':]''))
              | Some g \<Rightarrow> parseClass whole rest False (class @ g)))
      else if isMeta c then Inl (Unmodelled whole)
      else parseClass whole t False (class @ [c]))"
  by pat_completeness auto
termination
proof (relation "measure (\<lambda>(whole, t, first, class). length t)")
  fix whole :: string and c t first and cl :: "char list" and x2 x y
  assume "findClose (tl t) = Some x2" "(x, y) = x2"
  then have "length y < length (tl t)" using findClose_shorter [of "tl t" x y] by simp
  then show "((whole, y, False, cl @ (g :: char list)), whole, c # t, first, cl)
      \<in> measure (\<lambda>(whole, t, first, cl). length t)" for g
    by simp
qed simp_all

lemma parseClass_shorter:
  "parseClass whole t first class = Inr (cls, rest) \<Longrightarrow> length rest < length t"
proof (induction whole t first "class" arbitrary: cls rest rule: parseClass.induct)
  case (1 whole first cl)
  then show ?case by simp
next
  case (2 whole c t first cl)
  show ?case
  proof (cases "c = CHR '']''")
    case True
    with 2(3) show ?thesis by (simp split: if_splits)
  next
    case False
    note notclose = this
    show ?thesis
    proof (cases "c = CHR ''['' \<and> length (c # t) > 2 \<and> hd t = CHR '':''")
      case True
      with 2(3) notclose obtain n r g where
        fc: "findClose (tl t) = Some (n, r)" and
        pos: "\<not> (n \<noteq> [] \<and> hd n = CHR ''^'')" and
        pg: "posixGroup (''[:'' @ n @ '':]'') = Some g" and
        rec: "parseClass whole r False (cl @ g) = Inr (cls, rest)"
        by (auto split: option.splits if_splits)
      from 2(1) [OF notclose True fc refl pos pg rec] have "length rest < length r" .
      moreover from findClose_shorter [OF fc] have "length r < length (tl t)" .
      ultimately show ?thesis by simp
    next
      case False
      with 2(3) notclose have nm: "\<not> isMeta c"
        and rec: "parseClass whole t False (cl @ [c]) = Inr (cls, rest)"
        by (auto split: if_splits)
      from 2(2) [OF notclose False nm rec] show ?thesis by simp
    qed
  qed
qed

text \<open>
  The parser's main loop: \<open>stack\<close> holds the pieces read so far, the last one first;
  \<open>lastRepeat\<close> says that the piece on top has just taken a repetition operator.
\<close>

function parse :: "piece list \<Rightarrow> bool \<Rightarrow> string \<Rightarrow> error + piece list" where
  "parse stack lastRepeat [] = Inr (rev stack)"
| "parse stack lastRepeat (c # t) =
     (if c = CHR ''*'' then
        (if lastRepeat then Inl (SyntaxError ''invalid nested repetition operator'' ''**'')
         else case stack of
                [] \<Rightarrow> Inl (SyntaxError ''missing argument to repetition operator'' ''*'')
              | One a # st \<Rightarrow> parse (Star a # st) True t
              | Star a # st \<Rightarrow> parse (Star a # st) True t)
      else if c = CHR ''^'' then parse (One BeginText # stack) False t
      else if c = CHR ''$'' then parse (One EndText # stack) False t
      else if c = CHR ''['' then
        (case parseClass (c # t) t True [] of
           Inl e \<Rightarrow> Inl e
         | Inr (cls, rest) \<Rightarrow> parse (One (Class cls) # stack) False rest)
      else if isMeta c then Inl (Unmodelled (c # t))
      else parse (One (Lit c) # stack) False t)"
  by pat_completeness auto
termination
  by (relation "measure (\<lambda>(stack, lastRepeat, t). length t)")
     (auto dest: parseClass_shorter)

definition Compile :: "string \<Rightarrow> error + piece list" where
  "Compile expr = parse [] False expr"

fun accepts :: "atom \<Rightarrow> char \<Rightarrow> bool" where
  "accepts (Lit c) x = (x = c)"
| "accepts (Class cs) x = (x \<in> set cs)"
| "accepts BeginText x = False"
| "accepts EndText x = False"

text \<open>
  Whether the pieces match a prefix of the text; \<open>atBegin\<close> says that the text starts
  where the whole input starts. A starred empty-width assertion matches the empty
  string.
\<close>

fun matchHere :: "piece list \<Rightarrow> bool \<Rightarrow> string \<Rightarrow> bool" where
  "matchHere [] atBegin s = True"
| "matchHere (One BeginText # r) atBegin s = (atBegin \<and> matchHere r atBegin s)"
| "matchHere (One EndText # r) atBegin s = (s = [] \<and> matchHere r atBegin s)"
| "matchHere (One a # r) atBegin [] = False"
| "matchHere (One a # r) atBegin (x # xs) = (accepts a x \<and> matchHere r False xs)"
| "matchHere (Star BeginText # r) atBegin s = matchHere r atBegin s"
| "matchHere (Star EndText # r) atBegin s = matchHere r atBegin s"
| "matchHere (Star a # r) atBegin [] = matchHere r atBegin []"
| "matchHere (Star a # r) atBegin (x # xs) =
     (matchHere r atBegin (x # xs) \<or> (accepts a x \<and> matchHere (Star a # r) False xs))"

fun matchAnywhere :: "piece list \<Rightarrow> bool \<Rightarrow> string \<Rightarrow> bool" where
  "matchAnywhere re atBegin [] = matchHere re atBegin []"
| "matchAnywhere re atBegin (x # xs) =
     (matchHere re atBegin (x # xs) \<or> matchAnywhere re False xs)"

definition MatchString :: "string \<Rightarrow> string \<Rightarrow> bool \<times> error option" where
  "MatchString pattern s =
     (case Compile pattern of
        Inl err \<Rightarrow> (False, Some err)
      | Inr re \<Rightarrow> (matchAnywhere re True s, None))"

section \<open>The data of logspout, docker and the fluent logger\<close>

text \<open>
  Modelled from the spec: the structs \<open>router.Message\<close>, \<open>router.Route\<close>,
  \<open>docker.Container\<close>, \<open>docker.Config\<close> and \<open>fluent.Config\<close> are declared in the
  libraries, not in the repository. The records hold the fields that the adapter reads
  or sets, which are those of the specification's data model. A message is one that
  the host supplies: its container and the container's configuration are present. The
  time stamp is passed on untouched, so its type is left open.
\<close>

record docker_Config =
  Hostname :: string
  Labels :: gomap

record docker_Container =
  ID :: string
  Name :: string
  Config :: docker_Config

record 't Message =
  Container :: docker_Container
  Source :: string
  Data :: string
  Time :: 't

record Route =
  Adapter :: string
  Address :: string
  Options :: gomap

record fluent_Config =
  FluentHost :: string
  FluentPort :: int
  FluentNetwork :: string
  FluentSocketPath :: string
  BufferLimit :: int
  RetryWait :: int
  MaxRetry :: int
  Async :: bool
  SubSecondPrecision :: bool
  RequestAck :: bool

text \<open>
  What the adapter does to the world, in the order it does it: a line handed to
  \<open>log.Println\<close> (its arguments), a transport's \<open>Dial\<close> (transport name, address,
  options), \<open>fluent.New\<close> (the configuration), and the client's \<open>PostWithTime\<close>
  (tag, time, record).
\<close>

datatype 't logval = LStr string | LTime 't | LRec gomap | LErr error

datatype 't event =
    Println "'t logval list"
  | Dial string string gomap
  | New fluent_Config
  | PostWithTime string 't gomap

section \<open>The adapter\<close>

definition defaultProtocol :: string where
  "defaultProtocol = ''tcp''"

definition defaultBufferLimit :: int where
  "defaultBufferLimit = 1024 * 1024"

definition defaultRetryWait :: int where
  "defaultRetryWait = 1000"

definition defaultMaxRetries :: int where
  "defaultMaxRetries = 2147483647"

text \<open>\<open>os.Getenv\<close> over an environment: an unset variable reads as the empty string.\<close>

definition Getenv :: "gomap \<Rightarrow> string \<Rightarrow> string" where
  "Getenv env key = (case env key of None \<Rightarrow> [] | Some v \<Rightarrow> v)"

definition getenv :: "gomap \<Rightarrow> string \<Rightarrow> string \<Rightarrow> string" where
  "getenv env key fallback =
     (let v = Getenv env key in if length v = 0 then fallback else v)"

record 'w Adapter =
  writer :: 'w
  tagPrefix :: string
  tagSuffixLabel :: string

text \<open>
  \<open>Stream\<close>: the loop over the channel, run on the messages the channel delivers
  until it is closed. The delivery client is a parameter: \<open>post\<close> is its
  \<open>PostWithTime\<close>, from the client's state, the tag, the time and the record to the
  error (if any) and the client's next state. \<open>w\<close> is the client's state and \<open>out\<close>
  the events so far.
\<close>

fun Stream_loop ::
  "('w \<Rightarrow> string \<Rightarrow> 't \<Rightarrow> gomap \<Rightarrow> error option \<times> 'w) \<Rightarrow> 'w Adapter \<Rightarrow>
     'w \<Rightarrow> 't event list \<Rightarrow> 't Message list \<Rightarrow> 'w \<times> 't event list" where
  "Stream_loop post ad w out [] = (w, out)"
| "Stream_loop post ad w out (message # logstream) =
     (let (messageIsEmpty, err) = MatchString ''^[[:space:]]*$'' (Data message) in
      if messageIsEmpty then
        Stream_loop post ad w (out @ [Println [LStr ''Skipping empty message!'']]) logstream
      else
        (let tag = [];
             tag = (if length (tagPrefix ad) > 0 then tagPrefix ad else tag);
             tagSuffix = index (Labels (Config (Container message))) (tagSuffixLabel ad);
             tagSuffix = (if tagSuffix = [] then Hostname (Config (Container message))
                          else tagSuffix);
             tag = tag @ ''.'' @ tagSuffix;
             record = [''log'' \<mapsto> Data message,
                       ''container_id'' \<mapsto> ID (Container message),
                       ''container_name'' \<mapsto> Name (Container message),
                       ''source'' \<mapsto> Source message];
             out = out @ [Println [LStr tag, LTime (Time message), LRec record]];
             (err, w) = post w tag (Time message) record;
             out = out @ [PostWithTime tag (Time message) record]
         in case err of
              Some e \<Rightarrow>
                Stream_loop post ad w
                  (out @ [Println [LStr ''fluentd-adapter PostWithTime Error: '', LErr e]])
                  logstream
            | None \<Rightarrow> Stream_loop post ad w out logstream))"

definition Stream ::
  "('w \<Rightarrow> string \<Rightarrow> 't \<Rightarrow> gomap \<Rightarrow> error option \<times> 'w) \<Rightarrow> 'w Adapter \<Rightarrow>
     't Message list \<Rightarrow> 'w \<times> 't event list" where
  "Stream post ad logstream = Stream_loop post ad (writer ad) [] logstream"

text \<open>
  \<open>Route.AdapterTransport\<close> of logspout's router: the part of the adapter name after
  its first plus sign, or the default.
\<close>

fun Split_plus :: "string \<Rightarrow> string list" where
  "Split_plus [] = [[]]"
| "Split_plus (c # s) =
     (if c = CHR ''+'' then [] # Split_plus s
      else (c # hd (Split_plus s)) # tl (Split_plus s))"

definition AdapterTransport :: "Route \<Rightarrow> string \<Rightarrow> string" where
  "AdapterTransport r dfault =
     (let parts = Split_plus (Adapter r) in
      if length parts > 1 then parts ! 1 else dfault)"

text \<open>
  \<open>NewAdapter\<close>. The collaborators are parameters: \<open>transports\<close> is the registry
  \<open>router.AdapterTransports\<close>, a transport being its \<open>Dial\<close> from the address and the
  options to the error, if any (the connection is dropped by the adapter); \<open>new\<close> is
  \<open>fluent.New\<close>; \<open>env\<close> is the process environment. The result is the events (no
  time stamp occurs in them) and either the error or the adapter: every
  \<open>return nil, err\<close> is an \<open>Inl\<close>. The error
  of \<open>net.SplitHostPort\<close> is overwritten by that of \<open>strconv.Atoi\<close> before it is
  read.
\<close>

type_synonym transport = "string \<Rightarrow> gomap \<Rightarrow> error option"

definition NewAdapter ::
  "(string \<rightharpoonup> transport) \<Rightarrow> (fluent_Config \<Rightarrow> error + 'w) \<Rightarrow> gomap \<Rightarrow> Route \<Rightarrow>
     unit event list \<times> (error + 'w Adapter)" where
  "NewAdapter transports new env route =
     (case transports (AdapterTransport route ''tcp'') of
        None \<Rightarrow> ([], Inl (ErrorString (''Unable to find adapter: '' @ Adapter route)))
      | Some transport \<Rightarrow>
          (let out = [Dial (AdapterTransport route ''tcp'') (Address route) (Options route)] in
           case transport (Address route) (Options route) of
             Some err \<Rightarrow> (out, Inl err)
           | None \<Rightarrow>
               (let out = out @ [Println [LStr (''Connectivity successful to fluentd @ '' @
                                               Address route)]];
                    (host, port, err) = SplitHostPort (Address route)
                in case Atoi port of
                     Inl err \<Rightarrow>
                       (out, Inl (Wrapf err (''Invalid fluentd-address '' @ Address route)))
                   | Inr portNum \<Rightarrow>
                (case Atoi (getenv env ''FLUENTD_BUFFER_LIMIT'' (Itoa defaultBufferLimit)) of
                   Inl err \<Rightarrow> (out, Inl err)
                 | Inr bufferLimit \<Rightarrow>
                (case Atoi (getenv env ''FLUENTD_RETRY_WAIT'' (Itoa defaultRetryWait)) of
                   Inl err \<Rightarrow> (out, Inl err)
                 | Inr retryWait \<Rightarrow>
                (case Atoi (getenv env ''FLUENTD_MAX_RETRIES'' (Itoa defaultMaxRetries)) of
                   Inl err \<Rightarrow> (out, Inl err)
                 | Inr maxRetries \<Rightarrow>
                (case ParseBool (getenv env ''FLUENTD_ASYNC_CONNECT'' ''false'') of
                   Inl err \<Rightarrow> (out, Inl err)
                 | Inr asyncConnect \<Rightarrow>
                (case ParseBool (getenv env ''FLUENTD_SUBSECOND_PRECISION'' ''false'') of
                   Inl err \<Rightarrow> (out, Inl err)
                 | Inr subSecondPrecision \<Rightarrow>
                (let fluentConfig =
                       \<lparr>FluentHost = host,
                        FluentPort = portNum,
                        FluentNetwork = defaultProtocol,
                        FluentSocketPath = [],
                        BufferLimit = bufferLimit,
                        RetryWait = retryWait,
                        MaxRetry = maxRetries,
                        Async = asyncConnect,
                        SubSecondPrecision = subSecondPrecision,
                        RequestAck = True\<rparr>;
                     out = out @ [New fluentConfig]
                 in case new fluentConfig of
                      Inl err \<Rightarrow> (out, Inl (Wrapf err ''Unable to create fluentd logger''))
                    | Inr w \<Rightarrow>
                        (out, Inr \<lparr>writer = w,
                                   tagPrefix = getenv env ''TAG_PREFIX'' ''docker'',
                                   tagSuffixLabel = getenv env ''TAG_SUFFIX_LABEL'' []\<rparr>))))))))))"

section \<open>The words of the specification\<close>

text \<open>
  The whitespace characters are those of the POSIX class \<open>space\<close>: tab, line feed,
  vertical tab, form feed, carriage return and the space.
\<close>

definition isSpace :: "char \<Rightarrow> bool" where
  "isSpace c = (c \<in> set [CHR 0x09, CHR 0x0A, CHR 0x0B, CHR 0x0C, CHR 0x0D, CHR 0x20])"

definition whitespace_only :: "string \<Rightarrow> bool" where
  "whitespace_only s = list_all isSpace s"

text \<open>
  The routing tag as the specification words it: the prefix, a dot, and the suffix,
  which is the label value for the configured key if present and non-empty, else the
  container's hostname.
\<close>

definition spec_suffix :: "'w Adapter \<Rightarrow> 't Message \<Rightarrow> string" where
  "spec_suffix ad m =
     (case Labels (Config (Container m)) (tagSuffixLabel ad) of
        Some v \<Rightarrow> if v \<noteq> [] then v else Hostname (Config (Container m))
      | None \<Rightarrow> Hostname (Config (Container m)))"

definition spec_tag :: "'w Adapter \<Rightarrow> 't Message \<Rightarrow> string" where
  "spec_tag ad m = tagPrefix ad @ ''.'' @ spec_suffix ad m"

text \<open>The delivery record as the specification words it: four fixed keys and no other.\<close>

definition spec_record :: "'t Message \<Rightarrow> gomap" where
  "spec_record m =
     (\<lambda>k. if k = ''log'' then Some (Data m)
          else if k = ''container_id'' then Some (ID (Container m))
          else if k = ''container_name'' then Some (Name (Container m))
          else if k = ''source'' then Some (Source m)
          else None)"

text \<open>The delivery attempts among the events: the calls of \<open>PostWithTime\<close>, in order.\<close>

fun deliveries :: "'t event list \<Rightarrow> (string \<times> 't \<times> gomap) list" where
  "deliveries [] = []"
| "deliveries (PostWithTime tag t r # es) = (tag, t, r) # deliveries es"
| "deliveries (e # es) = deliveries es"

text \<open>The events of one message that is not skipped, given what the client answered.\<close>

definition sent :: "'w Adapter \<Rightarrow> 't Message \<Rightarrow> error option \<Rightarrow> 't event list" where
  "sent ad m err =
     [Println [LStr (spec_tag ad m), LTime (Time m), LRec (spec_record m)],
      PostWithTime (spec_tag ad m) (Time m) (spec_record m)] @
     (case err of
        None \<Rightarrow> []
      | Some e \<Rightarrow> [Println [LStr ''fluentd-adapter PostWithTime Error: '', LErr e]])"

text \<open>
  A delivery client under observation: \<open>observe post\<close> answers as \<open>post\<close> does and
  keeps, beside the state of \<open>post\<close>, the list of the calls it has received, each
  with its tag, time and record. \<open>observed ad\<close> is the adapter \<open>ad\<close> with such a
  client as its writer, no call received yet.
\<close>

definition observe ::
  "('w \<Rightarrow> string \<Rightarrow> 't \<Rightarrow> gomap \<Rightarrow> error option \<times> 'w) \<Rightarrow>
     'w \<times> (string \<times> 't \<times> gomap) list \<Rightarrow> string \<Rightarrow> 't \<Rightarrow> gomap \<Rightarrow>
     error option \<times> 'w \<times> (string \<times> 't \<times> gomap) list" where
  "observe post s tag t r =
     (fst (post (fst s) tag t r), snd (post (fst s) tag t r), snd s @ [(tag, t, r)])"

definition observed :: "'w Adapter \<Rightarrow> ('w \<times> (string \<times> 't \<times> gomap) list) Adapter" where
  "observed ad =
     \<lparr>writer = (writer ad, []), tagPrefix = tagPrefix ad,
      tagSuffixLabel = tagSuffixLabel ad\<rparr>"

text \<open>
  The steps of \<open>NewAdapter\<close> before the environment is read: the transport is
  registered and its \<open>Dial\<close> reports no error; the port of the address is what
  \<open>net.SplitHostPort\<close> returns for it; an address is malformed when it cannot be split
  or its port is no number.
\<close>

definition probed :: "(string \<rightharpoonup> transport) \<Rightarrow> Route \<Rightarrow> bool" where
  "probed transports route =
     (case transports (AdapterTransport route ''tcp'') of
        None \<Rightarrow> False
      | Some transport \<Rightarrow> transport (Address route) (Options route) = None)"

definition port_of :: "string \<Rightarrow> string" where
  "port_of address = fst (snd (SplitHostPort address))"

definition malformed :: "string \<Rightarrow> bool" where
  "malformed address =
     (snd (snd (SplitHostPort address)) \<noteq> None \<or> isl (Atoi (port_of address)))"

definition err_of :: "error + 'a \<Rightarrow> error option" where
  "err_of r = (case r of Inl e \<Rightarrow> Some e | Inr v \<Rightarrow> None)"

text \<open>The parse errors of the five overrides, in the order \<open>NewAdapter\<close> reads them.\<close>

definition override_errors :: "gomap \<Rightarrow> error option list" where
  "override_errors env =
     [err_of (Atoi (getenv env ''FLUENTD_BUFFER_LIMIT'' (Itoa defaultBufferLimit))),
      err_of (Atoi (getenv env ''FLUENTD_RETRY_WAIT'' (Itoa defaultRetryWait))),
      err_of (Atoi (getenv env ''FLUENTD_MAX_RETRIES'' (Itoa defaultMaxRetries))),
      err_of (ParseBool (getenv env ''FLUENTD_ASYNC_CONNECT'' ''false'')),
      err_of (ParseBool (getenv env ''FLUENTD_SUBSECOND_PRECISION'' ''false''))]"

fun first_error :: "error option list \<Rightarrow> error option" where
  "first_error [] = None"
| "first_error (Some e # es) = Some e"
| "first_error (None # es) = first_error es"

section \<open>Concrete inputs\<close>

definition ecs_adapter :: "nat Adapter" where
  "ecs_adapter =
     \<lparr>writer = 0, tagPrefix = ''docker'',
      tagSuffixLabel = ''com.amazonaws.ecs.container-name''\<rparr>"

definition bare_adapter :: "nat Adapter" where
  "bare_adapter = \<lparr>writer = 0, tagPrefix = [], tagSuffixLabel = []\<rparr>"

definition web_message :: "nat Message" where
  "web_message =
     \<lparr>Container =
        \<lparr>ID = ''4f2a'', Name = ''/web'',
         Config = \<lparr>Hostname = ''abc123'',
                   Labels = [''com.amazonaws.ecs.container-name'' \<mapsto> ''web-1'']\<rparr>\<rparr>,
      Source = ''stdout'', Data = ''GET /'', Time = 17\<rparr>"

definition plain_message :: "nat Message" where
  "plain_message =
     \<lparr>Container =
        \<lparr>ID = ''77c0'', Name = ''/db'',
         Config = \<lparr>Hostname = ''abc123'', Labels = Map.empty\<rparr>\<rparr>,
      Source = ''stderr'', Data = ''ready'', Time = 18\<rparr>"

definition nameless_message :: "nat Message" where
  "nameless_message =
     \<lparr>Container =
        \<lparr>ID = ''0001'', Name = ''/x'',
         Config = \<lparr>Hostname = [], Labels = Map.empty\<rparr>\<rparr>,
      Source = ''stdout'', Data = ''x'', Time = 19\<rparr>"

definition blank_message :: "nat Message" where
  "blank_message =
     \<lparr>Container =
        \<lparr>ID = ''4f2a'', Name = ''/web'',
         Config = \<lparr>Hostname = ''abc123'', Labels = Map.empty\<rparr>\<rparr>,
      Source = ''stdout'', Data = [CHR '' '', CHR 0x09, CHR 0x0A], Time = 20\<rparr>"

definition empty_message :: "nat Message" where
  "empty_message = blank_message\<lparr>Data := [], Time := 21\<rparr>"

text \<open>Two delivery clients whose state counts the calls: one accepts, one refuses.\<close>

definition accepting :: "nat \<Rightarrow> string \<Rightarrow> nat \<Rightarrow> gomap \<Rightarrow> error option \<times> nat" where
  "accepting w tag t r = (None, Suc w)"

definition refusing :: "nat \<Rightarrow> string \<Rightarrow> nat \<Rightarrow> gomap \<Rightarrow> error option \<times> nat" where
  "refusing w tag t r = (Some (External ''buffer full''), Suc w)"

text \<open>A registry whose tcp transport connects, one whose tcp transport does not, a
  client constructor that hands back the configuration it was given, and routes.\<close>

definition reachable :: "string \<rightharpoonup> transport" where
  "reachable = [''tcp'' \<mapsto> (\<lambda>address options. None)]"

definition unreachable :: "string \<rightharpoonup> transport" where
  "unreachable = [''tcp'' \<mapsto> (\<lambda>address options. Some (External ''connection refused''))]"

definition recording :: "fluent_Config \<Rightarrow> error + fluent_Config" where
  "recording cfg = Inr cfg"

definition good_route :: Route where
  "good_route = \<lparr>Adapter = ''fluentd'', Address = ''localhost:24224'', Options = Map.empty\<rparr>"

definition portless_route :: Route where
  "portless_route = \<lparr>Adapter = ''fluentd'', Address = ''localhost'', Options = Map.empty\<rparr>"

text \<open>Environments, a registry with a tls transport only and a route that asks for it,
  and the configuration that an empty environment gives for the first route.\<close>

definition override_env :: gomap where
  "override_env = [''FLUENTD_BUFFER_LIMIT'' \<mapsto> ''2048'', ''FLUENTD_ASYNC_CONNECT'' \<mapsto> ''true'']"

definition bad_retries_env :: gomap where
  "bad_retries_env = [''FLUENTD_MAX_RETRIES'' \<mapsto> ''abc'']"

definition tls_only :: "string \<rightharpoonup> transport" where
  "tls_only = [''tls'' \<mapsto> (\<lambda>address options. None)]"

definition tls_route :: Route where
  "tls_route = \<lparr>Adapter = ''fluentd+tls'', Address = ''logs.example:24224'',
                Options = [''tls.verify'' \<mapsto> ''false'']\<rparr>"

definition default_config :: fluent_Config where
  "default_config =
     \<lparr>FluentHost = ''localhost'', FluentPort = 24224, FluentNetwork = ''tcp'',
      FluentSocketPath = [], BufferLimit = 1048576, RetryWait = 1000,
      MaxRetry = 2147483647, Async = False, SubSecondPrecision = False,
      RequestAck = True\<rparr>"

section \<open>Facts about the library functions\<close>

lemma FormatUint_digit: "n < 10 \<Longrightarrow> FormatUint n = [''0123456789'' ! n]"
  by (subst FormatUint.simps) simp
lemma FormatUint_more:
  "10 \<le> n \<Longrightarrow> FormatUint n = FormatUint (n div 10) @ [''0123456789'' ! (n mod 10)]"
  by (subst FormatUint.simps) simp

lemma Itoa_defaults:
  "Itoa defaultBufferLimit = ''1048576''"
  "Itoa defaultRetryWait = ''1000''"
  "Itoa defaultMaxRetries = ''2147483647''"
  by (simp_all add: Itoa_def defaultBufferLimit_def defaultRetryWait_def
      defaultMaxRetries_def FormatUint_digit FormatUint_more)

lemma Compile_pattern:
  "Compile ''^[[:space:]]*$'' =
     Inr [One BeginText, Star (Class (byteRange 9 13 @ byteRange 32 32)), One EndText]"
  by (simp add: Compile_def posixGroup_def isMeta_def)

lemma space_class: "byteRange 9 13 @ byteRange 32 32 = [CHR 0x09, CHR 0x0A, CHR 0x0B, CHR 0x0C, CHR 0x0D, CHR 0x20]"
  by code_simp

lemma space_members: "(\<lambda>c. c \<in> set (byteRange 9 13 @ byteRange 32 32)) = isSpace"
  by (rule ext) (simp only: space_class isSpace_def)

lemma matchHere_star_end:
  "matchHere [Star (Class cs), One EndText] b s = list_all (\<lambda>c. c \<in> set cs) s"
  by (induction s arbitrary: b) simp_all

lemma matchAnywhere_anchored: "\<not> matchAnywhere (One BeginText # r) False s"
  by (induction s) simp_all

lemma matchAnywhere_pattern:
  "matchAnywhere [One BeginText, Star (Class cs), One EndText] True s = list_all (\<lambda>c. c \<in> set cs) s"
  using matchHere_star_end [of cs True s] matchAnywhere_anchored [of "[Star (Class cs), One EndText]"]
  by (cases s) simp_all

lemma MatchString_space: "MatchString ''^[[:space:]]*$'' s = (whitespace_only s, None)"
  by (simp only: MatchString_def Compile_pattern sum.case matchAnywhere_pattern
      space_members whitespace_only_def)

section \<open>Facts about the stream loop\<close>

lemma code_tag:
  "(if 0 < length (tagPrefix ad) then tagPrefix ad else []) @ ''.'' @
     (if index (Labels (Config (Container m))) (tagSuffixLabel ad) = []
      then Hostname (Config (Container m))
      else index (Labels (Config (Container m))) (tagSuffixLabel ad)) = spec_tag ad m"
  by (auto simp: spec_tag_def spec_suffix_def index_def split: option.splits)

lemma code_record:
  "[''log'' \<mapsto> Data m, ''container_id'' \<mapsto> ID (Container m),
    ''container_name'' \<mapsto> Name (Container m), ''source'' \<mapsto> Source m] = spec_record m"
  by (rule ext) (simp add: spec_record_def)

lemma Stream_loop_skip:
  "whitespace_only (Data m) \<Longrightarrow>
   Stream_loop post ad w out (m # ms) =
   Stream_loop post ad w (out @ [Println [LStr ''Skipping empty message!'']]) ms"
  by (simp add: MatchString_space)

lemma Stream_loop_send:
  "\<not> whitespace_only (Data m) \<Longrightarrow>
   Stream_loop post ad w out (m # ms) =
   Stream_loop post ad (snd (post w (spec_tag ad m) (Time m) (spec_record m)))
     (out @ sent ad m (fst (post w (spec_tag ad m) (Time m) (spec_record m)))) ms"
  apply (simp only: Stream_loop.simps MatchString_space prod.case Let_def if_False
      code_tag code_record)
  apply (simp add: sent_def split: prod.splits option.splits)
  done


lemma deliveries_append: "deliveries (xs @ ys) = deliveries xs @ deliveries ys"
  by (induction xs rule: deliveries.induct) simp_all

lemma deliveries_sent: "deliveries (sent ad m err) = [(spec_tag ad m, Time m, spec_record m)]"
  by (simp add: sent_def split: option.splits)

lemma Stream_loop_out:
  "Stream_loop post ad w out ms =
     (fst (Stream_loop post ad w [] ms), out @ snd (Stream_loop post ad w [] ms))"
proof (induction ms arbitrary: w out)
  case Nil
  show ?case by simp
next
  case (Cons m ms)
  show ?case
  proof (cases "whitespace_only (Data m)")
    case True
    show ?thesis
      unfolding Stream_loop_skip [OF True]
      by (subst Cons.IH, subst (2 3) Cons.IH) simp
  next
    case False
    show ?thesis
      unfolding Stream_loop_send [OF False]
      by (subst Cons.IH, subst (2 3) Cons.IH) simp
  qed
qed

lemma Stream_loop_append:
  "Stream_loop post ad w out (ms1 @ ms2) =
     Stream_loop post ad (fst (Stream_loop post ad w out ms1))
       (snd (Stream_loop post ad w out ms1)) ms2"
proof (induction ms1 arbitrary: w out)
  case Nil
  show ?case by simp
next
  case (Cons m ms)
  show ?case
  proof (cases "whitespace_only (Data m)")
    case True
    show ?thesis using Cons.IH by (simp only: append_Cons Stream_loop_skip [OF True])
  next
    case False
    show ?thesis using Cons.IH by (simp only: append_Cons Stream_loop_send [OF False])
  qed
qed

lemma deliveries_Stream_loop:
  "deliveries (snd (Stream_loop post ad w out ms)) =
     deliveries out @
     map (\<lambda>m. (spec_tag ad m, Time m, spec_record m))
       (filter (\<lambda>m. \<not> whitespace_only (Data m)) ms)"
proof (induction ms arbitrary: w out)
  case Nil
  show ?case by simp
next
  case (Cons m ms)
  show ?case
  proof (cases "whitespace_only (Data m)")
    case True
    then show ?thesis
      by (simp only: Stream_loop_skip Cons.IH) (simp add: deliveries_append)
  next
    case False
    show ?thesis
      by (simp only: Stream_loop_send [OF False] Cons.IH)
         (simp add: deliveries_append deliveries_sent False)
  qed
qed

lemma spec_tag_observed: "spec_tag (observed ad) m = spec_tag ad m"
  by (simp add: spec_tag_def spec_suffix_def observed_def)

lemma sent_observed: "sent (observed ad) m err = sent ad m err"
  by (simp add: sent_def spec_tag_observed)

lemma Stream_loop_observe:
  "Stream_loop (observe post) (observed ad) (w, calls) out ms =
     ((fst (Stream_loop post ad w out ms),
       calls @ map (\<lambda>m. (spec_tag ad m, Time m, spec_record m))
                 (filter (\<lambda>m. \<not> whitespace_only (Data m)) ms)),
      snd (Stream_loop post ad w out ms))"
proof (induction ms arbitrary: w calls out)
  case Nil
  show ?case by simp
next
  case (Cons m ms)
  show ?case
  proof (cases "whitespace_only (Data m)")
    case True
    show ?thesis
      by (simp only: Stream_loop_skip [OF True] Cons.IH) (simp add: True)
  next
    case False
    have step: "observe post (w, calls) (spec_tag ad m) (Time m) (spec_record m) =
        (fst (post w (spec_tag ad m) (Time m) (spec_record m)),
         snd (post w (spec_tag ad m) (Time m) (spec_record m)),
         calls @ [(spec_tag ad m, Time m, spec_record m)])"
      by (simp add: observe_def)
    show ?thesis
      by (simp only: Stream_loop_send [OF False] spec_tag_observed sent_observed step
          fst_conv snd_conv Cons.IH)
         (simp add: False)
  qed
qed

lemma Stream_observe:
  "Stream (observe post) (observed ad) ms =
     ((fst (Stream post ad ms),
       map (\<lambda>m. (spec_tag ad m, Time m, spec_record m))
         (filter (\<lambda>m. \<not> whitespace_only (Data m)) ms)),
      snd (Stream post ad ms))"
  using Stream_loop_observe [of post ad "writer ad" "[]" "[]" ms]
  by (simp add: Stream_def observed_def)

section \<open>Facts about the construction\<close>

lemma NewAdapter_New:
  assumes "New cfg \<in> set (fst (NewAdapter T new env route))"
  shows "\<exists>dial host port err portNum.
     T (AdapterTransport route ''tcp'') = Some dial \<and>
     dial (Address route) (Options route) = None \<and>
     SplitHostPort (Address route) = (host, port, err) \<and>
     Atoi port = Inr portNum \<and>
     Atoi (getenv env ''FLUENTD_BUFFER_LIMIT'' (Itoa defaultBufferLimit)) = Inr (BufferLimit cfg) \<and>
     Atoi (getenv env ''FLUENTD_RETRY_WAIT'' (Itoa defaultRetryWait)) = Inr (RetryWait cfg) \<and>
     Atoi (getenv env ''FLUENTD_MAX_RETRIES'' (Itoa defaultMaxRetries)) = Inr (MaxRetry cfg) \<and>
     ParseBool (getenv env ''FLUENTD_ASYNC_CONNECT'' ''false'') = Inr (Async cfg) \<and>
     ParseBool (getenv env ''FLUENTD_SUBSECOND_PRECISION'' ''false'') = Inr (SubSecondPrecision cfg) \<and>
     FluentHost cfg = host \<and> FluentPort cfg = portNum \<and>
     FluentNetwork cfg = ''tcp'' \<and> FluentSocketPath cfg = [] \<and> RequestAck cfg"
  using assms
  by (auto simp: NewAdapter_def Let_def defaultProtocol_def
      split: option.splits sum.splits prod.splits)

lemma NewAdapter_Inr:
  assumes "snd (NewAdapter T new env route) = Inr ad"
  shows "\<exists>cfg. New cfg \<in> set (fst (NewAdapter T new env route)) \<and> new cfg = Inr (writer ad) \<and>
     tagPrefix ad = getenv env ''TAG_PREFIX'' ''docker'' \<and>
     tagSuffixLabel ad = getenv env ''TAG_SUFFIX_LABEL'' []"
  using assms
  by (auto simp: NewAdapter_def Let_def split: option.splits sum.splits prod.splits)

lemma NewAdapter_no_transport:
  assumes "T (AdapterTransport route ''tcp'') = None"
  shows "NewAdapter T new env route =
     ([], Inl (ErrorString (''Unable to find adapter: '' @ Adapter route)))"
  using assms by (simp add: NewAdapter_def)

lemma NewAdapter_dial_error:
  assumes "T (AdapterTransport route ''tcp'') = Some dial"
    and "dial (Address route) (Options route) = Some err"
  shows "NewAdapter T new env route =
     ([Dial (AdapterTransport route ''tcp'') (Address route) (Options route)], Inl err)"
  using assms by (simp add: NewAdapter_def)

lemma NewAdapter_result_of_New:
  assumes "New cfg \<in> set (fst (NewAdapter T new env route))"
  shows "snd (NewAdapter T new env route) =
     (case new cfg of
        Inl err \<Rightarrow> Inl (WithMessage err ''Unable to create fluentd logger'')
      | Inr w \<Rightarrow> Inr \<lparr>writer = w,
                       tagPrefix = getenv env ''TAG_PREFIX'' ''docker'',
                       tagSuffixLabel = getenv env ''TAG_SUFFIX_LABEL'' []\<rparr>)"
  using assms
  by (auto simp: NewAdapter_def Let_def Wrapf_def split: option.splits sum.splits prod.splits)

lemma Atoi_empty: "Atoi [] = Inl (NumError ''Atoi'' [] ErrSyntax)"
  by (simp add: Atoi_def ParseInt_def)

lemma SplitHostPort_error:
  "snd (snd (SplitHostPort address)) \<noteq> None \<Longrightarrow> port_of address = []"
  by (auto simp: SplitHostPort_def port_of_def addrErr_def Let_def
      split: option.splits if_splits)

lemma malformed_Atoi: "malformed address \<Longrightarrow> \<exists>e. Atoi (port_of address) = Inl e"
  unfolding malformed_def
  using SplitHostPort_error [of address] Atoi_empty
  by (cases "Atoi (port_of address)") auto

lemma NewAdapter_bad_port:
  assumes "probed T route" and "Atoi (port_of (Address route)) = Inl e"
  shows "NewAdapter T new env route =
     ([Dial (AdapterTransport route ''tcp'') (Address route) (Options route),
       Println [LStr (''Connectivity successful to fluentd @ '' @ Address route)]],
      Inl (WithMessage e (''Invalid fluentd-address '' @ Address route)))"
  using assms
  by (auto simp: NewAdapter_def probed_def port_of_def Let_def Wrapf_def
      split: option.splits prod.splits)

lemma NewAdapter_not_probed:
  assumes "\<not> probed T route"
  shows "(\<exists>e. snd (NewAdapter T new env route) = Inl e) \<and>
     (\<forall>cfg. New cfg \<notin> set (fst (NewAdapter T new env route)))"
  using assms
  by (auto simp: NewAdapter_def probed_def split: option.splits)

lemma first_error_Some: "Some e0 \<in> set es \<Longrightarrow> \<exists>e. first_error es = Some e"
  by (induction es rule: first_error.induct) auto

lemma err_of_simps [simp]: "err_of (Inl e) = Some e" "err_of (Inr v) = None"
  by (simp_all add: err_of_def)

lemma NewAdapter_override_error:
  assumes "probed T route" and "Atoi (port_of (Address route)) = Inr portNum"
    and "first_error (override_errors env) = Some e"
  shows "NewAdapter T new env route =
     ([Dial (AdapterTransport route ''tcp'') (Address route) (Options route),
       Println [LStr (''Connectivity successful to fluentd @ '' @ Address route)]],
      Inl e)"
  using assms
  by (auto simp: NewAdapter_def probed_def port_of_def Let_def override_errors_def
      split: option.splits prod.splits sum.splits)

lemma NewAdapter_reaches_New:
  assumes "probed T route" and "Atoi (port_of (Address route)) = Inr portNum"
    and "first_error (override_errors env) = None"
  shows "\<exists>cfg. New cfg \<in> set (fst (NewAdapter T new env route))"
  using assms
  by (auto simp: NewAdapter_def probed_def port_of_def Let_def override_errors_def
      split: option.splits prod.splits sum.splits)

lemma AdapterTransport_fixtures:
  "AdapterTransport good_route ''tcp'' = ''tcp''" "AdapterTransport portless_route ''tcp'' = ''tcp''"
  by (simp_all add: AdapterTransport_def good_route_def portless_route_def)

lemma probed_fixtures:
  "probed reachable good_route" "probed reachable portless_route"
  "\<not> probed unreachable good_route" "\<not> probed unreachable portless_route"
  by (simp_all add: probed_def AdapterTransport_fixtures reachable_def unreachable_def)

lemma SplitHostPort_fixtures:
  "SplitHostPort (Address good_route) = (''localhost'', ''24224'', None)"
  "SplitHostPort (Address portless_route) =
     ([], [], Some (AddrError ''missing port in address'' ''localhost''))"
  by (simp_all add: SplitHostPort_def addrErr_def good_route_def portless_route_def)

lemma port_fixtures:
  "Atoi (port_of (Address good_route)) = Inr 24224"
  "malformed (Address portless_route)"
  by (simp_all add: port_of_def malformed_def SplitHostPort_fixtures Atoi_def isDigit_def digitVal_def)

lemma Atoi_values:
  "Atoi ''1048576'' = Inr 1048576" "Atoi ''1000'' = Inr 1000"
  "Atoi ''2147483647'' = Inr 2147483647" "Atoi ''2048'' = Inr 2048"
  "Atoi ''abc'' = Inl (NumError ''Atoi'' ''abc'' ErrSyntax)" "Atoi ''24224'' = Inr 24224"
  by (simp_all add: Atoi_def isDigit_def digitVal_def)

lemma ParseBool_values: "ParseBool ''false'' = Inr False" "ParseBool ''true'' = Inr True"
  by (simp_all add: ParseBool_def)

lemma override_errors_fixtures:
  "override_errors Map.empty = [None, None, None, None, None]"
  "override_errors override_env = [None, None, None, None, None]"
  "override_errors bad_retries_env =
     [None, None, Some (NumError ''Atoi'' ''abc'' ErrSyntax), None, None]"
  by (simp_all add: override_errors_def getenv_def Getenv_def Itoa_defaults Atoi_values
      ParseBool_values override_env_def bad_retries_env_def)

lemma NewAdapter_unreachable:
  "snd (NewAdapter unreachable new env good_route) = Inl (External ''connection refused'')"
  "snd (NewAdapter unreachable new env portless_route) = Inl (External ''connection refused'')"
  by (simp_all add: NewAdapter_def AdapterTransport_fixtures unreachable_def)

lemma NewAdapter_override_env:
  "NewAdapter reachable recording override_env good_route =
     ([Dial ''tcp'' ''localhost:24224'' Map.empty,
       Println [LStr ''Connectivity successful to fluentd @ localhost:24224''],
       New \<lparr>FluentHost = ''localhost'', FluentPort = 24224, FluentNetwork = ''tcp'',
            FluentSocketPath = [], BufferLimit = 2048, RetryWait = 1000,
            MaxRetry = 2147483647, Async = True, SubSecondPrecision = False,
            RequestAck = True\<rparr>],
      Inr \<lparr>writer = \<lparr>FluentHost = ''localhost'', FluentPort = 24224, FluentNetwork = ''tcp'',
            FluentSocketPath = [], BufferLimit = 2048, RetryWait = 1000,
            MaxRetry = 2147483647, Async = True, SubSecondPrecision = False,
            RequestAck = True\<rparr>,
           tagPrefix = ''docker'', tagSuffixLabel = []\<rparr>)"
  using SplitHostPort_fixtures(1)
  by (simp add: NewAdapter_def AdapterTransport_fixtures reachable_def getenv_def Getenv_def
      Itoa_defaults Atoi_values ParseBool_values override_env_def recording_def
      defaultProtocol_def)
     (simp add: good_route_def Let_def)

lemma NewAdapter_no_env:
  "NewAdapter reachable recording Map.empty good_route =
     ([Dial ''tcp'' ''localhost:24224'' Map.empty,
       Println [LStr ''Connectivity successful to fluentd @ localhost:24224''],
       New \<lparr>FluentHost = ''localhost'', FluentPort = 24224, FluentNetwork = ''tcp'',
            FluentSocketPath = [], BufferLimit = 1048576, RetryWait = 1000,
            MaxRetry = 2147483647, Async = False, SubSecondPrecision = False,
            RequestAck = True\<rparr>],
      Inr \<lparr>writer = \<lparr>FluentHost = ''localhost'', FluentPort = 24224, FluentNetwork = ''tcp'',
            FluentSocketPath = [], BufferLimit = 1048576, RetryWait = 1000,
            MaxRetry = 2147483647, Async = False, SubSecondPrecision = False,
            RequestAck = True\<rparr>,
           tagPrefix = ''docker'', tagSuffixLabel = []\<rparr>)"
  using SplitHostPort_fixtures(1)
  by (simp add: NewAdapter_def AdapterTransport_fixtures reachable_def getenv_def Getenv_def
      Itoa_defaults Atoi_values ParseBool_values recording_def defaultProtocol_def)
     (simp add: good_route_def Let_def)

lemma NewAdapter_tls:
  "NewAdapter tls_only recording Map.empty tls_route =
     ([Dial ''tls'' ''logs.example:24224'' [''tls.verify'' \<mapsto> ''false''],
       Println [LStr ''Connectivity successful to fluentd @ logs.example:24224''],
       New (default_config\<lparr>FluentHost := ''logs.example''\<rparr>)],
      Inr \<lparr>writer = default_config\<lparr>FluentHost := ''logs.example''\<rparr>,
           tagPrefix = ''docker'', tagSuffixLabel = []\<rparr>)"
proof -
  have t: "AdapterTransport tls_route ''tcp'' = ''tls''"
    by (simp add: AdapterTransport_def tls_route_def)
  have s: "SplitHostPort (Address tls_route) = (''logs.example'', ''24224'', None)"
    by (simp add: SplitHostPort_def addrErr_def tls_route_def)
  show ?thesis
    by (simp add: NewAdapter_def t s tls_only_def getenv_def Getenv_def
        Itoa_defaults Atoi_values ParseBool_values recording_def defaultProtocol_def)
       (simp add: tls_route_def Let_def default_config_def)
qed

section \<open>The claims about the stream loop\<close>

lemmas fixtures = ecs_adapter_def bare_adapter_def web_message_def plain_message_def
  nameless_message_def blank_message_def empty_message_def accepting_def refusing_def

lemma ws_fixtures:
  "\<not> whitespace_only (Data web_message)" "\<not> whitespace_only (Data plain_message)"
  "\<not> whitespace_only (Data nameless_message)" "whitespace_only (Data blank_message)"
  "whitespace_only (Data empty_message)"
  by (simp_all add: fixtures whitespace_only_def isSpace_def)

text \<open>
  Claim C10. The whitespace check never fails: the fixed pattern compiles, so for every
  payload the error that \<open>MatchString\<close> returns beside its answer is absent, and the
  answer is a function of the payload alone, namely whether every byte of it is a
  whitespace character.
\<close>

theorem whitespace_filter_total:
  "Compile ''^[[:space:]]*$'' =
     Inr [One BeginText,
          Star (Class [CHR 0x09, CHR 0x0A, CHR 0x0B, CHR 0x0C, CHR 0x0D, CHR 0x20]),
          One EndText] \<and>
   snd (MatchString ''^[[:space:]]*$'' s) = None \<and>
   fst (MatchString ''^[[:space:]]*$'' s) = whitespace_only s"
  by (simp add: MatchString_space Compile_pattern space_class)

theorem whitespace_filter_total_witness:
  "MatchString ''^[[:space:]]*$'' [] = (True, None) \<and>
   MatchString ''^[[:space:]]*$'' [CHR '' '', CHR 0x09, CHR 0x0A] = (True, None) \<and>
   MatchString ''^[[:space:]]*$'' '' x '' = (False, None)"
  using whitespace_filter_total [of "[]"]
    whitespace_filter_total [of "[CHR '' '', CHR 0x09, CHR 0x0A]"]
    whitespace_filter_total [of "'' x ''"]
  by (simp add: prod_eq_iff whitespace_only_def isSpace_def)

text \<open>
  Claim C1. For the messages with a payload that is not only whitespace, the tags
  handed to the delivery client are, in order, the prefix, a dot, and the suffix: the
  label value for the configured key if present and non-empty, else the hostname. The
  dot is there also when the prefix is empty, and when both sides are.
\<close>

theorem stream_tag:
  "map fst (deliveries (snd (Stream post ad ms))) =
     map (spec_tag ad) (filter (\<lambda>m. \<not> whitespace_only (Data m)) ms)"
  by (simp add: Stream_def deliveries_Stream_loop comp_def)

theorem stream_tag_witness:
  "map fst (deliveries (snd (Stream accepting ecs_adapter
       [web_message, blank_message, plain_message]))) = [''docker.web-1'', ''docker.abc123''] \<and>
   map fst (deliveries (snd (Stream accepting bare_adapter
       [plain_message, nameless_message]))) = [''.abc123'', ''.'']"
  using stream_tag [of accepting ecs_adapter "[web_message, blank_message, plain_message]"]
    stream_tag [of accepting bare_adapter "[plain_message, nameless_message]"]
  by (simp add: ws_fixtures spec_tag_def spec_suffix_def) (simp add: fixtures)

text \<open>
  Claim C2. A message whose payload is only whitespace (the empty payload included),
  at any position of the stream, adds the skip notice to the events and nothing else:
  no tag or record is logged, the delivery client is not called and keeps its state,
  and the loop goes on with the messages that follow.
\<close>

theorem whitespace_message_skipped:
  assumes "whitespace_only (Data m)"
  shows "Stream post ad (ms1 @ m # ms2) =
     (fst (Stream_loop post ad (fst (Stream post ad ms1)) [] ms2),
      snd (Stream post ad ms1) @ [Println [LStr ''Skipping empty message!'']] @
      snd (Stream_loop post ad (fst (Stream post ad ms1)) [] ms2))"
proof -
  have "Stream post ad (ms1 @ m # ms2) =
      Stream_loop post ad (fst (Stream post ad ms1))
        (snd (Stream post ad ms1) @ [Println [LStr ''Skipping empty message!'']]) ms2"
    by (simp only: Stream_def Stream_loop_append [of _ _ _ _ ms1] Stream_loop_skip [OF assms])
  then show ?thesis
    by (simp only: Stream_loop_out [of _ _ _ "_ @ _"] append_assoc)
qed

theorem whitespace_message_skipped_witness:
  "whitespace_only (Data blank_message) \<and>
   fst (Stream accepting ecs_adapter [web_message, blank_message, plain_message]) = 2 \<and>
   deliveries (snd (Stream accepting ecs_adapter [blank_message])) = [] \<and>
   snd (Stream accepting ecs_adapter [blank_message]) = [Println [LStr ''Skipping empty message!'']] \<and>
   whitespace_only (Data empty_message) \<and>
   Stream accepting ecs_adapter [empty_message] = (0, [Println [LStr ''Skipping empty message!'']])"
  using whitespace_message_skipped [of blank_message accepting ecs_adapter "[web_message]" "[plain_message]"]
    whitespace_message_skipped [of blank_message accepting ecs_adapter "[]" "[]"]
    whitespace_message_skipped [of empty_message accepting ecs_adapter "[]" "[]"]
  by (simp add: ws_fixtures Stream_def Stream_loop_send Stream_loop_skip del: Stream_loop.simps(2))
     (simp add: accepting_def ecs_adapter_def)

text \<open>
  Claim C3. The records that the delivery client receives are, in order, those of the
  messages that are not skipped: a client under observation has received exactly
  them, and the events show the same calls. The record of a message has exactly the
  keys \<open>log\<close>, \<open>container_id\<close>, \<open>container_name\<close> and \<open>source\<close>, bound to the
  message's payload, the container's ID, the container's name and the message's
  source, unchanged.
\<close>

theorem stream_record:
  "map (\<lambda>c. snd (snd c)) (snd (fst (Stream (observe post) (observed ad) ms))) =
     map spec_record (filter (\<lambda>m. \<not> whitespace_only (Data m)) ms) \<and>
   fst (fst (Stream (observe post) (observed ad) ms)) = fst (Stream post ad ms) \<and>
   map (\<lambda>d. snd (snd d)) (deliveries (snd (Stream post ad ms))) =
     map spec_record (filter (\<lambda>m. \<not> whitespace_only (Data m)) ms) \<and>
   dom (spec_record m) = {''log'', ''container_id'', ''container_name'', ''source''} \<and>
   spec_record m ''log'' = Some (Data m) \<and>
   spec_record m ''container_id'' = Some (ID (Container m)) \<and>
   spec_record m ''container_name'' = Some (Name (Container m)) \<and>
   spec_record m ''source'' = Some (Source m)"
proof -
  have "dom (spec_record m) = {''log'', ''container_id'', ''container_name'', ''source''}"
    by (auto simp: spec_record_def dom_def split: if_splits)
  moreover have "map (\<lambda>d. snd (snd d)) (deliveries (snd (Stream post ad ms))) =
     map spec_record (filter (\<lambda>m. \<not> whitespace_only (Data m)) ms)"
    by (simp add: Stream_def deliveries_Stream_loop comp_def)
  moreover have "map (\<lambda>c. snd (snd c)) (snd (fst (Stream (observe post) (observed ad) ms))) =
     map spec_record (filter (\<lambda>m. \<not> whitespace_only (Data m)) ms)"
    by (simp add: Stream_observe comp_def)
  ultimately show ?thesis
    by (simp add: spec_record_def Stream_observe)
qed

theorem stream_record_witness:
  "map (\<lambda>c. (snd (snd c)) ''log'') (snd (fst (Stream (observe accepting) (observed ecs_adapter)
       [web_message, blank_message, plain_message]))) = [Some ''GET /'', Some ''ready''] \<and>
   map (\<lambda>c. (snd (snd c)) ''container_id'') (snd (fst (Stream (observe accepting)
       (observed ecs_adapter) [web_message, blank_message, plain_message]))) =
     [Some ''4f2a'', Some ''77c0''] \<and>
   map (\<lambda>c. (snd (snd c)) ''container_name'') (snd (fst (Stream (observe accepting)
       (observed ecs_adapter) [web_message, blank_message, plain_message]))) =
     [Some ''/web'', Some ''/db''] \<and>
   map (\<lambda>c. (snd (snd c)) ''source'') (snd (fst (Stream (observe accepting)
       (observed ecs_adapter) [web_message, blank_message, plain_message]))) =
     [Some ''stdout'', Some ''stderr''] \<and>
   map (\<lambda>c. (snd (snd c)) ''time'') (snd (fst (Stream (observe accepting)
       (observed ecs_adapter) [web_message, blank_message, plain_message]))) = [None, None] \<and>
   fst (fst (Stream (observe accepting) (observed ecs_adapter)
       [web_message, blank_message, plain_message])) = 2"
proof -
  let ?ms = "[web_message, blank_message, plain_message]"
  let ?C = "snd (fst (Stream (observe accepting) (observed ecs_adapter) ?ms))"
  note inst = stream_record [of accepting ecs_adapter ?ms web_message]
  have eq: "map (\<lambda>c. snd (snd c)) ?C = [spec_record web_message, spec_record plain_message]"
    using inst by (simp add: ws_fixtures)
  have "map (\<lambda>r. r k) (map (\<lambda>c. snd (snd c)) ?C) =
      [spec_record web_message k, spec_record plain_message k]" for k
    by (simp only: eq list.map)
  then have recs: "map (\<lambda>c. (snd (snd c)) k) ?C =
      [spec_record web_message k, spec_record plain_message k]" for k
    by (simp add: comp_def)
  have run: "fst (Stream accepting ecs_adapter ?ms) = 2"
    by (simp add: ws_fixtures Stream_def Stream_loop_send Stream_loop_skip
        del: Stream_loop.simps(2))
       (simp add: accepting_def ecs_adapter_def)
  from inst have "fst (fst (Stream (observe accepting) (observed ecs_adapter) ?ms)) =
      fst (Stream accepting ecs_adapter ?ms)"
    by blast
  with run recs show ?thesis
    by (simp add: spec_record_def web_message_def plain_message_def)
qed

text \<open>
  Claim C4. When the delivery client reports a failure for the message at a position
  of the stream, the loop logs the error and does nothing else for that message: the
  client was called once for it, and the messages that follow are processed by the
  same loop, from the state the client was left in.
\<close>

theorem delivery_failure_continues:
  assumes "Stream post ad ms1 = (w1, out1)"
    and "\<not> whitespace_only (Data m)"
    and "post w1 (spec_tag ad m) (Time m) (spec_record m) = (Some e, w2)"
  shows "Stream post ad (ms1 @ m # ms2) =
     (fst (Stream_loop post ad w2 [] ms2),
      out1 @
      [Println [LStr (spec_tag ad m), LTime (Time m), LRec (spec_record m)],
       PostWithTime (spec_tag ad m) (Time m) (spec_record m),
       Println [LStr ''fluentd-adapter PostWithTime Error: '', LErr e]] @
      snd (Stream_loop post ad w2 [] ms2))"
proof -
  have first: "Stream_loop post ad (writer ad) [] ms1 = (w1, out1)"
    using assms(1) by (simp only: Stream_def)
  have "Stream post ad (ms1 @ m # ms2) = Stream_loop post ad w1 out1 (m # ms2)"
    by (simp only: Stream_def Stream_loop_append [of _ _ _ _ ms1] first fst_conv snd_conv)
  also have "\<dots> = Stream_loop post ad w2 (out1 @ sent ad m (Some e)) ms2"
    by (simp only: Stream_loop_send [OF assms(2)] assms(3) fst_conv snd_conv)
  also have "\<dots> = (fst (Stream_loop post ad w2 [] ms2),
      (out1 @ sent ad m (Some e)) @ snd (Stream_loop post ad w2 [] ms2))"
    by (rule Stream_loop_out)
  finally show ?thesis
    by (simp add: sent_def)
qed

theorem delivery_failure_continues_witness:
  "Stream refusing ecs_adapter [] = (0, []) \<and>
   \<not> whitespace_only (Data web_message) \<and>
   refusing 0 (spec_tag ecs_adapter web_message) (Time web_message) (spec_record web_message) =
     (Some (External ''buffer full''), 1) \<and>
   fst (Stream refusing ecs_adapter [web_message, plain_message]) = 2 \<and>
   map fst (deliveries (snd (Stream refusing ecs_adapter [web_message, plain_message]))) =
     [''docker.web-1'', ''docker.abc123'']"
proof -
  have a: "Stream refusing ecs_adapter [] = (0, [])"
    by (simp add: Stream_def ecs_adapter_def)
  have b: "\<not> whitespace_only (Data web_message)"
    by (rule ws_fixtures)
  have c: "refusing 0 (spec_tag ecs_adapter web_message) (Time web_message)
      (spec_record web_message) = (Some (External ''buffer full''), 1)"
    by (simp add: refusing_def)
  have rest: "Stream_loop refusing ecs_adapter (Suc 0) [] [plain_message] =
      (2, sent ecs_adapter plain_message (Some (External ''buffer full'')))"
    by (simp add: Stream_loop_send ws_fixtures refusing_def del: Stream_loop.simps(2))
  have tags: "spec_tag ecs_adapter web_message = ''docker.web-1''"
    "spec_tag ecs_adapter plain_message = ''docker.abc123''"
    by (simp_all add: spec_tag_def spec_suffix_def fixtures)
  from delivery_failure_continues [OF a b c, of "[plain_message]"] a b c show ?thesis
    by (simp add: rest deliveries_sent tags del: Stream_loop.simps(2))
qed

text \<open>
  Claim C9. The calls that the delivery client receives are a function of the
  messages and of the adapter's tag prefix and label key alone, one call for each
  message that is not skipped, whatever the client answers; observing the client
  changes nothing else of the run, and the events show the same calls. So a message
  that comes twice is handed to the client twice, with the same tag, time and record.
\<close>

theorem repeated_message_redelivered:
  "Stream (observe post) (observed ad) ms =
     ((fst (Stream post ad ms),
       map (\<lambda>m. (spec_tag ad m, Time m, spec_record m))
         (filter (\<lambda>m. \<not> whitespace_only (Data m)) ms)),
      snd (Stream post ad ms)) \<and>
   deliveries (snd (Stream post ad ms)) =
     map (\<lambda>m. (spec_tag ad m, Time m, spec_record m))
       (filter (\<lambda>m. \<not> whitespace_only (Data m)) ms)"
proof
  show "Stream (observe post) (observed ad) ms =
     ((fst (Stream post ad ms),
       map (\<lambda>m. (spec_tag ad m, Time m, spec_record m))
         (filter (\<lambda>m. \<not> whitespace_only (Data m)) ms)),
      snd (Stream post ad ms))"
    by (rule Stream_observe)
  show "deliveries (snd (Stream post ad ms)) =
     map (\<lambda>m. (spec_tag ad m, Time m, spec_record m))
       (filter (\<lambda>m. \<not> whitespace_only (Data m)) ms)"
    by (simp add: Stream_def deliveries_Stream_loop)
qed

theorem repeated_message_redelivered_witness:
  "snd (fst (Stream (observe accepting) (observed ecs_adapter) [web_message, web_message])) =
     [(''docker.web-1'', 17, spec_record web_message),
      (''docker.web-1'', 17, spec_record web_message)] \<and>
   snd (fst (Stream (observe refusing) (observed ecs_adapter) [web_message, web_message])) =
     [(''docker.web-1'', 17, spec_record web_message),
      (''docker.web-1'', 17, spec_record web_message)] \<and>
   deliveries (snd (Stream accepting ecs_adapter [web_message, web_message])) =
     [(''docker.web-1'', 17, spec_record web_message),
      (''docker.web-1'', 17, spec_record web_message)]"
proof -
  have tag: "spec_tag ecs_adapter web_message = ''docker.web-1''"
    by (simp add: spec_tag_def spec_suffix_def fixtures)
  have t: "Time web_message = 17"
    by (simp add: web_message_def)
  show ?thesis
    using repeated_message_redelivered [of accepting ecs_adapter "[web_message, web_message]"]
      repeated_message_redelivered [of refusing ecs_adapter "[web_message, web_message]"]
    by (simp add: ws_fixtures tag t)
qed

section \<open>The claims about the construction\<close>

text \<open>
  Claim C5, as amended. If any of the five overrides (the variable's value, or the
  default when it is unset or empty) does not parse, as a number for the buffer limit,
  the retry wait and the maximum of retries, as a boolean for the asynchronous connect
  and the sub-second precision, then construction returns an error and no adapter, and
  no client is constructed. The error is the parse error of the first such override,
  in that order, when the steps before the overrides have succeeded: the transport
  was found, its \<open>Dial\<close> reported no error and the address is well formed.
  Otherwise it is the error of the first step that failed: the error that no adapter
  was found when the transport is not registered, the error of \<open>Dial\<close> as it is
  when the transport does not connect, and the error of \<open>strconv.Atoi\<close> on the
  port, wrapped as an invalid address, when the address is malformed.
\<close>

theorem override_parse_error:
  assumes "Some e0 \<in> set (override_errors env)"
  shows "(\<exists>e. snd (NewAdapter T new env route) = Inl e) \<and>
     (\<forall>cfg. New cfg \<notin> set (fst (NewAdapter T new env route))) \<and>
     (probed T route \<and> \<not> malformed (Address route) \<longrightarrow>
        (\<exists>e. first_error (override_errors env) = Some e \<and>
             snd (NewAdapter T new env route) = Inl e)) \<and>
     (T (AdapterTransport route ''tcp'') = None \<longrightarrow>
        snd (NewAdapter T new env route) =
          Inl (ErrorString (''Unable to find adapter: '' @ Adapter route))) \<and>
     (\<forall>dial err. T (AdapterTransport route ''tcp'') = Some dial \<and>
        dial (Address route) (Options route) = Some err \<longrightarrow>
        snd (NewAdapter T new env route) = Inl err) \<and>
     (probed T route \<and> malformed (Address route) \<longrightarrow>
        (\<exists>e. Atoi (port_of (Address route)) = Inl e \<and>
             snd (NewAdapter T new env route) =
               Inl (WithMessage e (''Invalid fluentd-address '' @ Address route))))"
proof -
  from assms obtain e where e: "first_error (override_errors env) = Some e"
    using first_error_Some by blast
  have early: "(T (AdapterTransport route ''tcp'') = None \<longrightarrow>
        snd (NewAdapter T new env route) =
          Inl (ErrorString (''Unable to find adapter: '' @ Adapter route))) \<and>
     (\<forall>dial err. T (AdapterTransport route ''tcp'') = Some dial \<and>
        dial (Address route) (Options route) = Some err \<longrightarrow>
        snd (NewAdapter T new env route) = Inl err)"
    by (simp add: NewAdapter_no_transport NewAdapter_dial_error)
  have bad: "probed T route \<and> malformed (Address route) \<longrightarrow>
        (\<exists>e. Atoi (port_of (Address route)) = Inl e \<and>
             snd (NewAdapter T new env route) =
               Inl (WithMessage e (''Invalid fluentd-address '' @ Address route)))"
  proof
    assume a: "probed T route \<and> malformed (Address route)"
    then obtain e' where e': "Atoi (port_of (Address route)) = Inl e'"
      using malformed_Atoi by blast
    from a NewAdapter_bad_port [OF _ e', where new = new and env = env and T = T]
    show "\<exists>e. Atoi (port_of (Address route)) = Inl e \<and>
             snd (NewAdapter T new env route) =
               Inl (WithMessage e (''Invalid fluentd-address '' @ Address route))"
      using e' by simp
  qed
  have main: "(\<exists>e. snd (NewAdapter T new env route) = Inl e) \<and>
     (\<forall>cfg. New cfg \<notin> set (fst (NewAdapter T new env route))) \<and>
     (probed T route \<and> \<not> malformed (Address route) \<longrightarrow>
        (\<exists>e. first_error (override_errors env) = Some e \<and>
             snd (NewAdapter T new env route) = Inl e))"
  proof (cases "probed T route")
    case False
    with NewAdapter_not_probed [OF False, of new env] show ?thesis
      by blast
  next
    case True
    show ?thesis
    proof (cases "Atoi (port_of (Address route))")
      case (Inl e')
      then have "malformed (Address route)"
        by (simp add: malformed_def)
      with NewAdapter_bad_port [OF True Inl, where new = new and env = env] show ?thesis
        by simp
    next
      case (Inr portNum)
      from NewAdapter_override_error [OF True Inr e, where new = new] show ?thesis
        using e by simp
    qed
  qed
  from main early bad show ?thesis
    by blast
qed

theorem override_parse_error_witness:
  "probed reachable good_route \<and> \<not> malformed (Address good_route) \<and>
   Some (NumError ''Atoi'' ''abc'' ErrSyntax) \<in> set (override_errors bad_retries_env) \<and>
   snd (NewAdapter reachable recording bad_retries_env good_route) =
     Inl (NumError ''Atoi'' ''abc'' ErrSyntax) \<and>
   unreachable (AdapterTransport good_route ''tcp'') =
     Some (\<lambda>address options. Some (External ''connection refused'')) \<and>
   snd (NewAdapter unreachable recording bad_retries_env good_route) =
     Inl (External ''connection refused'')"
proof -
  have a: "probed reachable good_route"
    by (rule probed_fixtures)
  have b: "\<not> malformed (Address good_route)"
    by (simp add: malformed_def SplitHostPort_fixtures port_fixtures)
  have c: "Some (NumError ''Atoi'' ''abc'' ErrSyntax) \<in> set (override_errors bad_retries_env)"
    by (simp add: override_errors_fixtures)
  have d: "unreachable (AdapterTransport good_route ''tcp'') =
      Some (\<lambda>address options. Some (External ''connection refused''))"
    by (simp add: AdapterTransport_fixtures unreachable_def)
  have "\<forall>dial err. unreachable (AdapterTransport good_route ''tcp'') = Some dial \<and>
      dial (Address good_route) (Options good_route) = Some err \<longrightarrow>
      snd (NewAdapter unreachable recording bad_retries_env good_route) = Inl err"
    using override_parse_error [OF c, of unreachable recording good_route]
    by (elim conjE)
  with d have e: "snd (NewAdapter unreachable recording bad_retries_env good_route) =
      Inl (External ''connection refused'')"
    by simp
  from override_parse_error [OF c, of reachable recording good_route] a b c d e show ?thesis
    by (simp add: override_errors_fixtures)
qed

text \<open>
  Claim C5 as it is stated fails where an earlier step fails: with
  \<open>FLUENTD_MAX_RETRIES=abc\<close> and a collector that refuses the connection,
  construction returns the error of \<open>Dial\<close>, not the parse error.
\<close>

theorem override_parse_error_counterexample:
  "Getenv bad_retries_env ''FLUENTD_MAX_RETRIES'' = ''abc'' \<and>
   Atoi ''abc'' = Inl (NumError ''Atoi'' ''abc'' ErrSyntax) \<and>
   snd (NewAdapter unreachable recording bad_retries_env good_route) =
     Inl (External ''connection refused'') \<and>
   snd (NewAdapter unreachable recording bad_retries_env good_route) \<noteq>
     Inl (NumError ''Atoi'' ''abc'' ErrSyntax)"
  by (simp add: NewAdapter_unreachable Atoi_values Getenv_def bad_retries_env_def)

text \<open>
  Claim C6. Whenever construction builds a client configuration, each of the five
  parameters is the documented default if its variable is unset or empty (buffer limit
  1048576, retry wait 1000, maximum of retries the largest signed 32-bit integer, both
  flags false) and else the value that its variable parses to. A configuration is built
  whenever the transport is found and connects, the address is well formed and no
  override fails to parse. The configuration is the one that \<open>fluent.New\<close> is applied
  to: construction returns the adapter whose writer is the client made from it, or
  the wrapped error of \<open>fluent.New\<close>; and the writer of every adapter returned is
  the client made from such a configuration.
\<close>

theorem overrides_and_defaults:
  "(\<forall>cfg. New cfg \<in> set (fst (NewAdapter T new env route)) \<longrightarrow>
      (Getenv env ''FLUENTD_BUFFER_LIMIT'' = [] \<longrightarrow> BufferLimit cfg = 1048576) \<and>
      (Getenv env ''FLUENTD_BUFFER_LIMIT'' \<noteq> [] \<longrightarrow>
         Atoi (Getenv env ''FLUENTD_BUFFER_LIMIT'') = Inr (BufferLimit cfg)) \<and>
      (Getenv env ''FLUENTD_RETRY_WAIT'' = [] \<longrightarrow> RetryWait cfg = 1000) \<and>
      (Getenv env ''FLUENTD_RETRY_WAIT'' \<noteq> [] \<longrightarrow>
         Atoi (Getenv env ''FLUENTD_RETRY_WAIT'') = Inr (RetryWait cfg)) \<and>
      (Getenv env ''FLUENTD_MAX_RETRIES'' = [] \<longrightarrow> MaxRetry cfg = 2 ^ 31 - 1) \<and>
      (Getenv env ''FLUENTD_MAX_RETRIES'' \<noteq> [] \<longrightarrow>
         Atoi (Getenv env ''FLUENTD_MAX_RETRIES'') = Inr (MaxRetry cfg)) \<and>
      (Getenv env ''FLUENTD_ASYNC_CONNECT'' = [] \<longrightarrow> \<not> Async cfg) \<and>
      (Getenv env ''FLUENTD_ASYNC_CONNECT'' \<noteq> [] \<longrightarrow>
         ParseBool (Getenv env ''FLUENTD_ASYNC_CONNECT'') = Inr (Async cfg)) \<and>
      (Getenv env ''FLUENTD_SUBSECOND_PRECISION'' = [] \<longrightarrow> \<not> SubSecondPrecision cfg) \<and>
      (Getenv env ''FLUENTD_SUBSECOND_PRECISION'' \<noteq> [] \<longrightarrow>
         ParseBool (Getenv env ''FLUENTD_SUBSECOND_PRECISION'') = Inr (SubSecondPrecision cfg))) \<and>
   (probed T route \<and> \<not> malformed (Address route) \<and>
      first_error (override_errors env) = None \<longrightarrow>
      (\<exists>cfg. New cfg \<in> set (fst (NewAdapter T new env route)))) \<and>
   (\<forall>cfg. New cfg \<in> set (fst (NewAdapter T new env route)) \<longrightarrow>
      snd (NewAdapter T new env route) =
        (case new cfg of
           Inl err \<Rightarrow> Inl (WithMessage err ''Unable to create fluentd logger'')
         | Inr w \<Rightarrow> Inr \<lparr>writer = w,
                          tagPrefix = getenv env ''TAG_PREFIX'' ''docker'',
                          tagSuffixLabel = getenv env ''TAG_SUFFIX_LABEL'' []\<rparr>)) \<and>
   (\<forall>ad. snd (NewAdapter T new env route) = Inr ad \<longrightarrow>
      (\<exists>cfg. New cfg \<in> set (fst (NewAdapter T new env route)) \<and>
         new cfg = Inr (writer ad)))"
proof -
  have params: "(\<forall>cfg. New cfg \<in> set (fst (NewAdapter T new env route)) \<longrightarrow>
        (Getenv env ''FLUENTD_BUFFER_LIMIT'' = [] \<longrightarrow> BufferLimit cfg = 1048576) \<and>
        (Getenv env ''FLUENTD_BUFFER_LIMIT'' \<noteq> [] \<longrightarrow>
           Atoi (Getenv env ''FLUENTD_BUFFER_LIMIT'') = Inr (BufferLimit cfg)) \<and>
        (Getenv env ''FLUENTD_RETRY_WAIT'' = [] \<longrightarrow> RetryWait cfg = 1000) \<and>
        (Getenv env ''FLUENTD_RETRY_WAIT'' \<noteq> [] \<longrightarrow>
           Atoi (Getenv env ''FLUENTD_RETRY_WAIT'') = Inr (RetryWait cfg)) \<and>
        (Getenv env ''FLUENTD_MAX_RETRIES'' = [] \<longrightarrow> MaxRetry cfg = 2 ^ 31 - 1) \<and>
        (Getenv env ''FLUENTD_MAX_RETRIES'' \<noteq> [] \<longrightarrow>
           Atoi (Getenv env ''FLUENTD_MAX_RETRIES'') = Inr (MaxRetry cfg)) \<and>
        (Getenv env ''FLUENTD_ASYNC_CONNECT'' = [] \<longrightarrow> \<not> Async cfg) \<and>
        (Getenv env ''FLUENTD_ASYNC_CONNECT'' \<noteq> [] \<longrightarrow>
           ParseBool (Getenv env ''FLUENTD_ASYNC_CONNECT'') = Inr (Async cfg)) \<and>
        (Getenv env ''FLUENTD_SUBSECOND_PRECISION'' = [] \<longrightarrow> \<not> SubSecondPrecision cfg) \<and>
        (Getenv env ''FLUENTD_SUBSECOND_PRECISION'' \<noteq> [] \<longrightarrow>
           ParseBool (Getenv env ''FLUENTD_SUBSECOND_PRECISION'') = Inr (SubSecondPrecision cfg))) \<and>
     (probed T route \<and> \<not> malformed (Address route) \<and>
        first_error (override_errors env) = None \<longrightarrow>
        (\<exists>cfg. New cfg \<in> set (fst (NewAdapter T new env route))))"
  proof (intro conjI allI impI)
    fix cfg
    assume "New cfg \<in> set (fst (NewAdapter T new env route))"
    from NewAdapter_New [OF this] have
      bl: "Atoi (getenv env ''FLUENTD_BUFFER_LIMIT'' (Itoa defaultBufferLimit)) = Inr (BufferLimit cfg)" and
      rw: "Atoi (getenv env ''FLUENTD_RETRY_WAIT'' (Itoa defaultRetryWait)) = Inr (RetryWait cfg)" and
      mr: "Atoi (getenv env ''FLUENTD_MAX_RETRIES'' (Itoa defaultMaxRetries)) = Inr (MaxRetry cfg)" and
      ac: "ParseBool (getenv env ''FLUENTD_ASYNC_CONNECT'' ''false'') = Inr (Async cfg)" and
      sp: "ParseBool (getenv env ''FLUENTD_SUBSECOND_PRECISION'' ''false'') =
             Inr (SubSecondPrecision cfg)"
      by blast+
    {
      assume "Getenv env ''FLUENTD_BUFFER_LIMIT'' = []"
      with bl show "BufferLimit cfg = 1048576"
        by (simp add: getenv_def Itoa_defaults Atoi_values)
    }
    {
      assume "Getenv env ''FLUENTD_BUFFER_LIMIT'' \<noteq> []"
      with bl show "Atoi (Getenv env ''FLUENTD_BUFFER_LIMIT'') = Inr (BufferLimit cfg)"
        by (simp add: getenv_def)
    }
    {
      assume "Getenv env ''FLUENTD_RETRY_WAIT'' = []"
      with rw show "RetryWait cfg = 1000"
        by (simp add: getenv_def Itoa_defaults Atoi_values)
    }
    {
      assume "Getenv env ''FLUENTD_RETRY_WAIT'' \<noteq> []"
      with rw show "Atoi (Getenv env ''FLUENTD_RETRY_WAIT'') = Inr (RetryWait cfg)"
        by (simp add: getenv_def)
    }
    {
      assume "Getenv env ''FLUENTD_MAX_RETRIES'' = []"
      with mr show "MaxRetry cfg = 2 ^ 31 - 1"
        by (simp add: getenv_def Itoa_defaults Atoi_values)
    }
    {
      assume "Getenv env ''FLUENTD_MAX_RETRIES'' \<noteq> []"
      with mr show "Atoi (Getenv env ''FLUENTD_MAX_RETRIES'') = Inr (MaxRetry cfg)"
        by (simp add: getenv_def)
    }
    {
      assume "Getenv env ''FLUENTD_ASYNC_CONNECT'' = []"
      with ac show "\<not> Async cfg"
        by (simp add: getenv_def ParseBool_values)
    }
    {
      assume "Getenv env ''FLUENTD_ASYNC_CONNECT'' \<noteq> []"
      with ac show "ParseBool (Getenv env ''FLUENTD_ASYNC_CONNECT'') = Inr (Async cfg)"
        by (simp add: getenv_def)
    }
    {
      assume "Getenv env ''FLUENTD_SUBSECOND_PRECISION'' = []"
      with sp show "\<not> SubSecondPrecision cfg"
        by (simp add: getenv_def ParseBool_values)
    }
    {
      assume "Getenv env ''FLUENTD_SUBSECOND_PRECISION'' \<noteq> []"
      with sp show "ParseBool (Getenv env ''FLUENTD_SUBSECOND_PRECISION'') =
          Inr (SubSecondPrecision cfg)"
        by (simp add: getenv_def)
    }
  next
    assume a: "probed T route \<and> \<not> malformed (Address route) \<and>
        first_error (override_errors env) = None"
    then obtain portNum where "Atoi (port_of (Address route)) = Inr portNum"
      by (cases "Atoi (port_of (Address route))") (auto simp: malformed_def)
    with a show "\<exists>cfg. New cfg \<in> set (fst (NewAdapter T new env route))"
      using NewAdapter_reaches_New [of T route portNum env new] by blast
  qed
  have result: "\<forall>cfg. New cfg \<in> set (fst (NewAdapter T new env route)) \<longrightarrow>
      snd (NewAdapter T new env route) =
        (case new cfg of
           Inl err \<Rightarrow> Inl (WithMessage err ''Unable to create fluentd logger'')
         | Inr w \<Rightarrow> Inr \<lparr>writer = w,
                          tagPrefix = getenv env ''TAG_PREFIX'' ''docker'',
                          tagSuffixLabel = getenv env ''TAG_SUFFIX_LABEL'' []\<rparr>)"
    using NewAdapter_result_of_New [of _ T new env route] by blast
  have made: "\<forall>ad. snd (NewAdapter T new env route) = Inr ad \<longrightarrow>
      (\<exists>cfg. New cfg \<in> set (fst (NewAdapter T new env route)) \<and>
         new cfg = Inr (writer ad))"
    using NewAdapter_Inr [of T new env route] by blast
  from params result made show ?thesis
    by (intro conjI) (elim conjE, assumption)+
qed

theorem overrides_and_defaults_witness:
  "New (default_config\<lparr>BufferLimit := 2048, Async := True\<rparr>)
     \<in> set (fst (NewAdapter reachable recording override_env good_route)) \<and>
   Getenv override_env ''FLUENTD_BUFFER_LIMIT'' = ''2048'' \<and>
   Atoi ''2048'' = Inr 2048 \<and>
   Getenv override_env ''FLUENTD_ASYNC_CONNECT'' = ''true'' \<and>
   ParseBool ''true'' = Inr True \<and>
   Getenv override_env ''FLUENTD_RETRY_WAIT'' = [] \<and>
   New default_config \<in> set (fst (NewAdapter reachable recording Map.empty good_route)) \<and>
   snd (NewAdapter reachable recording override_env good_route) =
     Inr \<lparr>writer = default_config\<lparr>BufferLimit := 2048, Async := True\<rparr>,
          tagPrefix = ''docker'', tagSuffixLabel = []\<rparr> \<and>
   snd (NewAdapter reachable recording Map.empty good_route) =
     Inr \<lparr>writer = default_config, tagPrefix = ''docker'', tagSuffixLabel = []\<rparr>"
proof -
  have a: "New (default_config\<lparr>BufferLimit := 2048, Async := True\<rparr>)
      \<in> set (fst (NewAdapter reachable recording override_env good_route))"
    by (simp add: NewAdapter_override_env default_config_def)
  have b: "New default_config \<in> set (fst (NewAdapter reachable recording Map.empty good_route))"
    by (simp add: NewAdapter_no_env default_config_def)
  have "\<forall>cfg. New cfg \<in> set (fst (NewAdapter reachable recording override_env good_route)) \<longrightarrow>
      snd (NewAdapter reachable recording override_env good_route) =
        (case recording cfg of
           Inl err \<Rightarrow> Inl (WithMessage err ''Unable to create fluentd logger'')
         | Inr w \<Rightarrow> Inr \<lparr>writer = w,
                          tagPrefix = getenv override_env ''TAG_PREFIX'' ''docker'',
                          tagSuffixLabel = getenv override_env ''TAG_SUFFIX_LABEL'' []\<rparr>)"
    using overrides_and_defaults [of reachable recording override_env good_route]
    by (elim conjE)
  with a have c: "snd (NewAdapter reachable recording override_env good_route) =
      Inr \<lparr>writer = default_config\<lparr>BufferLimit := 2048, Async := True\<rparr>,
           tagPrefix = ''docker'', tagSuffixLabel = []\<rparr>"
    by (simp add: recording_def getenv_def Getenv_def override_env_def)
  have "\<forall>cfg. New cfg \<in> set (fst (NewAdapter reachable recording Map.empty good_route)) \<longrightarrow>
      snd (NewAdapter reachable recording Map.empty good_route) =
        (case recording cfg of
           Inl err \<Rightarrow> Inl (WithMessage err ''Unable to create fluentd logger'')
         | Inr w \<Rightarrow> Inr \<lparr>writer = w,
                          tagPrefix = getenv Map.empty ''TAG_PREFIX'' ''docker'',
                          tagSuffixLabel = getenv Map.empty ''TAG_SUFFIX_LABEL'' []\<rparr>)"
    using overrides_and_defaults [of reachable recording Map.empty good_route]
    by (elim conjE)
  with b have d: "snd (NewAdapter reachable recording Map.empty good_route) =
      Inr \<lparr>writer = default_config, tagPrefix = ''docker'', tagSuffixLabel = []\<rparr>"
    by (simp add: recording_def getenv_def Getenv_def)
  from a b c d show ?thesis
    by (simp add: Getenv_def override_env_def Atoi_values ParseBool_values)
qed

text \<open>
  Claim C7, as amended. For a malformed address (one that cannot be split, or whose
  port is no number) construction returns an error and no adapter, and no client is
  constructed. When the transport was found and its \<open>Dial\<close> reported no error, the
  error is that of \<open>strconv.Atoi\<close> on the port, wrapped in the message
  \<open>Invalid fluentd-address\<close> followed by the address. Otherwise it is the error that
  no adapter was found, when the transport is not registered, or the error of
  \<open>Dial\<close> as it is, when the transport does not connect.
\<close>

theorem malformed_address_rejected:
  assumes "malformed (Address route)"
  shows "(\<exists>e. snd (NewAdapter T new env route) = Inl e) \<and>
     (\<forall>cfg. New cfg \<notin> set (fst (NewAdapter T new env route))) \<and>
     (probed T route \<longrightarrow>
        (\<exists>e. Atoi (port_of (Address route)) = Inl e \<and>
             snd (NewAdapter T new env route) =
               Inl (WithMessage e (''Invalid fluentd-address '' @ Address route)))) \<and>
     (T (AdapterTransport route ''tcp'') = None \<longrightarrow>
        snd (NewAdapter T new env route) =
          Inl (ErrorString (''Unable to find adapter: '' @ Adapter route))) \<and>
     (\<forall>dial err. T (AdapterTransport route ''tcp'') = Some dial \<and>
        dial (Address route) (Options route) = Some err \<longrightarrow>
        snd (NewAdapter T new env route) = Inl err)"
proof -
  have early: "(T (AdapterTransport route ''tcp'') = None \<longrightarrow>
        snd (NewAdapter T new env route) =
          Inl (ErrorString (''Unable to find adapter: '' @ Adapter route))) \<and>
     (\<forall>dial err. T (AdapterTransport route ''tcp'') = Some dial \<and>
        dial (Address route) (Options route) = Some err \<longrightarrow>
        snd (NewAdapter T new env route) = Inl err)"
    by (simp add: NewAdapter_no_transport NewAdapter_dial_error)
  have main: "(\<exists>e. snd (NewAdapter T new env route) = Inl e) \<and>
     (\<forall>cfg. New cfg \<notin> set (fst (NewAdapter T new env route))) \<and>
     (probed T route \<longrightarrow>
        (\<exists>e. Atoi (port_of (Address route)) = Inl e \<and>
             snd (NewAdapter T new env route) =
               Inl (WithMessage e (''Invalid fluentd-address '' @ Address route))))"
  proof (cases "probed T route")
    case False
    with NewAdapter_not_probed [OF False, of new env] show ?thesis
      by blast
  next
    case True
    from malformed_Atoi [OF assms] obtain e where e: "Atoi (port_of (Address route)) = Inl e"
      by blast
    from NewAdapter_bad_port [OF True e, where new = new and env = env] show ?thesis
      using e by simp
  qed
  from main early show ?thesis
    by blast
qed

theorem malformed_address_rejected_witness:
  "probed reachable portless_route \<and> malformed (Address portless_route) \<and>
   snd (NewAdapter reachable recording Map.empty portless_route) =
     Inl (WithMessage (NumError ''Atoi'' [] ErrSyntax) ''Invalid fluentd-address localhost'') \<and>
   unreachable (AdapterTransport portless_route ''tcp'') =
     Some (\<lambda>address options. Some (External ''connection refused'')) \<and>
   snd (NewAdapter unreachable recording Map.empty portless_route) =
     Inl (External ''connection refused'') \<and>
   snd (NewAdapter Map.empty recording Map.empty portless_route) =
     Inl (ErrorString ''Unable to find adapter: fluentd'')"
proof -
  have a: "probed reachable portless_route"
    by (rule probed_fixtures)
  have b: "malformed (Address portless_route)"
    by (rule port_fixtures)
  have addr: "Address portless_route = ''localhost''"
    by (simp add: portless_route_def)
  have port: "port_of ''localhost'' = []"
    using SplitHostPort_fixtures(2) by (simp add: port_of_def addr)
  have d: "unreachable (AdapterTransport portless_route ''tcp'') =
      Some (\<lambda>address options. Some (External ''connection refused''))"
    by (simp add: AdapterTransport_fixtures unreachable_def)
  have "\<forall>dial err. unreachable (AdapterTransport portless_route ''tcp'') = Some dial \<and>
      dial (Address portless_route) (Options portless_route) = Some err \<longrightarrow>
      snd (NewAdapter unreachable recording Map.empty portless_route) = Inl err"
    using malformed_address_rejected [OF b, of unreachable recording Map.empty]
    by (elim conjE)
  with d have e: "snd (NewAdapter unreachable recording Map.empty portless_route) =
      Inl (External ''connection refused'')"
    by simp
  have f: "snd (NewAdapter Map.empty recording Map.empty portless_route) =
      Inl (ErrorString ''Unable to find adapter: fluentd'')"
    using malformed_address_rejected [OF b, of Map.empty recording Map.empty]
    by (simp add: portless_route_def)
  from malformed_address_rejected [OF b, of reachable recording Map.empty] a b d e f show ?thesis
    by (auto simp: addr port Atoi_empty)
qed

text \<open>
  Claim C7 as it is stated fails where the probe fails: for the address
  \<open>localhost\<close>, which has no port, and a transport whose \<open>Dial\<close> fails,
  construction returns the error of \<open>Dial\<close>.
\<close>

theorem malformed_address_rejected_counterexample:
  "malformed (Address portless_route) \<and>
   snd (NewAdapter unreachable recording Map.empty portless_route) =
     Inl (External ''connection refused'')"
  by (simp add: NewAdapter_unreachable port_fixtures)

text \<open>
  Claim C8. Every configuration that construction hands to \<open>fluent.New\<close> has the
  network \<open>tcp\<close> and asks for acknowledgments, whatever the environment and the
  route are; and the writer of every adapter that construction returns is the client
  that \<open>fluent.New\<close> made from such a configuration.
\<close>

theorem transport_and_ack_fixed:
  "(\<forall>cfg. New cfg \<in> set (fst (NewAdapter T new env route)) \<longrightarrow>
      FluentNetwork cfg = ''tcp'' \<and> RequestAck cfg) \<and>
   (\<forall>ad. snd (NewAdapter T new env route) = Inr ad \<longrightarrow>
      (\<exists>cfg. New cfg \<in> set (fst (NewAdapter T new env route)) \<and> new cfg = Inr (writer ad)))"
  using NewAdapter_New [of _ T new env route] NewAdapter_Inr [of T new env route]
  by blast

theorem transport_and_ack_fixed_witness:
  "AdapterTransport tls_route ''tcp'' = ''tls'' \<and>
   snd (NewAdapter tls_only recording Map.empty tls_route) =
     Inr \<lparr>writer = default_config\<lparr>FluentHost := ''logs.example''\<rparr>,
          tagPrefix = ''docker'', tagSuffixLabel = []\<rparr> \<and>
   FluentNetwork (default_config\<lparr>FluentHost := ''logs.example''\<rparr>) = ''tcp'' \<and>
   RequestAck (default_config\<lparr>FluentHost := ''logs.example''\<rparr>)"
proof -
  have t: "AdapterTransport tls_route ''tcp'' = ''tls''"
    by (simp add: AdapterTransport_def tls_route_def)
  have n: "New (default_config\<lparr>FluentHost := ''logs.example''\<rparr>)
      \<in> set (fst (NewAdapter tls_only recording Map.empty tls_route))"
    by (simp add: NewAdapter_tls)
  from transport_and_ack_fixed [of tls_only recording Map.empty tls_route] n t
  show ?thesis
    by (auto simp: NewAdapter_tls)
qed

end
